theory Spec2Isabelle
  imports Main "HOL-Library.Sublist" "HOL-Library.Word"
begin

section \<open>Numbers\<close>

text \<open>
  A TypeScript \<^verbatim>\<open>number\<close> is an IEEE double. The amounts and the timestamp of the data
  model below are the doubles with an integral value, together with the two infinities
  and NaN: \<open>Finite x\<close> stands for the double of value \<open>x\<close>, for an integer \<open>x\<close> that is a
  double (\<open>round_double x = Finite x\<close> below), and the doubles with a fractional part
  stay outside the development. Zero has one representation, since the validator cannot
  tell \<open>-0\<close> from \<open>0\<close>.
\<close>

datatype number = Finite int | PosInf | NegInf | NaN

function bit_length :: "int \<Rightarrow> nat" where
  "bit_length a = (if a \<le> 0 then 0 else Suc (bit_length (a div 2)))"
  by pat_completeness auto
termination
  by (relation "measure nat") auto

declare bit_length.simps [simp del]

text \<open>
  The double nearest to an integer: an integer of at most 53 bits is a double; a longer
  one keeps its leading 53 bits, rounded to nearest with ties to the even significand,
  and becomes an infinity from \<open>2 ^ 1024\<close> on.
\<close>

definition round_double :: "int \<Rightarrow> number" where
  "round_double x =
     (let a = \<bar>x\<bar> in
      if bit_length a \<le> 53 then Finite x
      else
        let e = bit_length a - 53;
            q = a div 2 ^ e;
            r = a mod 2 ^ e;
            half = 2 ^ (e - 1);
            m = (if half < r \<or> (r = half \<and> odd q) then q + 1 else q);
            v = m * 2 ^ e
        in if 2 ^ 1024 \<le> v then (if x < 0 then NegInf else PosInf)
           else Finite (if x < 0 then - v else v))"

text \<open>The operator \<^verbatim>\<open>+\<close> on two numbers: the exact sum, rounded.\<close>

fun number_add :: "number \<Rightarrow> number \<Rightarrow> number" where
  "number_add (Finite a) (Finite b) = round_double (a + b)"
| "number_add NaN y = NaN"
| "number_add x NaN = NaN"
| "number_add PosInf NegInf = NaN"
| "number_add NegInf PosInf = NaN"
| "number_add PosInf y = PosInf"
| "number_add x PosInf = PosInf"
| "number_add NegInf y = NegInf"
| "number_add x NegInf = NegInf"

text \<open>The test \<^verbatim>\<open>x <= 0\<close>, false for NaN.\<close>

fun number_le_zero :: "number \<Rightarrow> bool" where
  "number_le_zero (Finite x) = (x \<le> 0)"
| "number_le_zero NegInf = True"
| "number_le_zero PosInf = False"
| "number_le_zero NaN = False"

text \<open>The test \<^verbatim>\<open>x != y\<close> on two numbers: NaN differs from every number, itself included.\<close>

definition number_neq :: "number \<Rightarrow> number \<Rightarrow> bool" where
  "number_neq x y = (x = NaN \<or> y = NaN \<or> x \<noteq> y)"

subsection \<open>The text of a number\<close>

definition digit_char :: "int \<Rightarrow> char" where
  "digit_char d = ''0123456789'' ! nat (d mod 10)"

text \<open>The decimal digits of an integer that is not negative.\<close>

function decimal :: "int \<Rightarrow> string" where
  "decimal n = (if n < 10 then [digit_char n] else decimal (n div 10) @ [digit_char (n mod 10)])"
  by pat_completeness auto
termination
  by (relation "measure nat") auto

declare decimal.simps [simp del]

text \<open>
  The conversion of a number to a string (in a template literal and in
  \<^verbatim>\<open>JSON.stringify\<close>) writes the shortest decimal that reads back as the same double:
  the fewest significant digits, and among those the decimal nearest to the value. Below
  \<open>2 ^ 53\<close> that is the integer itself. \<open>shortest_decimal n j\<close> looks for a multiple of
  \<open>10 ^ j\<close> that rounds to \<open>n\<close>, then of \<open>10 ^ (j - 1)\<close>, and so on. Up to 21 digits the
  decimal is written out, and from there on in exponent form.
\<close>

definition round_trips :: "int \<Rightarrow> int \<Rightarrow> bool" where
  "round_trips v n = (round_double v = Finite n)"

definition nearest_multiple :: "int \<Rightarrow> int \<Rightarrow> int option" where
  "nearest_multiple n p =
     (let lo = (n div p) * p; hi = lo + p in
      if round_trips lo n \<and> round_trips hi n then
        (if n - lo < hi - n then Some lo
         else if hi - n < n - lo then Some hi
         else if even (n div p) then Some lo else Some hi)
      else if round_trips lo n then Some lo
      else if round_trips hi n then Some hi
      else None)"

fun shortest_decimal :: "int \<Rightarrow> nat \<Rightarrow> int" where
  "shortest_decimal n 0 = n"
| "shortest_decimal n (Suc j) =
     (case nearest_multiple n (10 ^ Suc j) of Some v \<Rightarrow> v | None \<Rightarrow> shortest_decimal n j)"

definition significant_digits :: "string \<Rightarrow> string" where
  "significant_digits ds = rev (dropWhile (\<lambda>c. c = CHR ''0'') (rev ds))"

definition magnitude_to_string :: "int \<Rightarrow> string" where
  "magnitude_to_string n =
     (if n < 2 ^ 53 then decimal n
      else
        let ds = decimal (shortest_decimal n (length (decimal n) - 1));
            s = significant_digits ds
        in if length ds \<le> 21 then ds
           else (if length s = 1 then s else hd s # ''.'' @ tl s)
                  @ ''e+'' @ decimal (int (length ds) - 1))"

fun number_to_string :: "number \<Rightarrow> string" where
  "number_to_string (Finite x) =
     (if x < 0 then CHR ''-'' # magnitude_to_string (- x) else magnitude_to_string x)"
| "number_to_string PosInf = ''Infinity''"
| "number_to_string NegInf = ''-Infinity''"
| "number_to_string NaN = ''NaN''"

subsection \<open>Output indices\<close>

text \<open>
  An output index is an index into the array of outputs of the origin transaction: an
  array index of the language, an unsigned integer below \<open>2 ^ 32\<close>. As a number it is
  the double of the same value.
\<close>

type_synonym index = "32 word"

definition index_number :: "index \<Rightarrow> number" where
  "index_number i = Finite (uint i)"

section \<open>JSON text\<close>

text \<open>
  \<^verbatim>\<open>JSON.stringify\<close> on the values that occur here: strings of code units below 256,
  numbers, booleans, \<^verbatim>\<open>null\<close>, arrays, and objects as the list of their properties in
  the order in which \<^verbatim>\<open>JSON.stringify\<close> visits them. A number that is not finite is
  written \<^verbatim>\<open>null\<close>.
\<close>

datatype json =
    JNull
  | JBool bool
  | JNumber number
  | JString string
  | JArray "json list"
  | JObject "(string \<times> json) list"

definition hex_char :: "nat \<Rightarrow> char" where
  "hex_char d = ''0123456789abcdef'' ! (d mod 16)"

definition escape_char :: "char \<Rightarrow> string" where
  "escape_char c =
     (if c = CHR 0x22 then [CHR 0x5C, CHR 0x22]
      else if c = CHR 0x5C then [CHR 0x5C, CHR 0x5C]
      else if c = CHR 0x08 then [CHR 0x5C, CHR ''b'']
      else if c = CHR 0x09 then [CHR 0x5C, CHR ''t'']
      else if c = CHR 0x0A then [CHR 0x5C, CHR ''n'']
      else if c = CHR 0x0C then [CHR 0x5C, CHR ''f'']
      else if c = CHR 0x0D then [CHR 0x5C, CHR ''r'']
      else if of_char c < (32::nat)
        then [CHR 0x5C, CHR ''u'', CHR ''0'', CHR ''0'',
              hex_char (of_char c div 16), hex_char (of_char c mod 16)]
      else [c])"

definition quote :: "string \<Rightarrow> string" where
  "quote s = CHR 0x22 # concat (map escape_char s) @ [CHR 0x22]"

fun join :: "string \<Rightarrow> string list \<Rightarrow> string" where
  "join sep [] = []"
| "join sep [x] = x"
| "join sep (x # y # ys) = x @ sep @ join sep (y # ys)"

fun json_number :: "number \<Rightarrow> string" where
  "json_number (Finite x) = number_to_string (Finite x)"
| "json_number PosInf = ''null''"
| "json_number NegInf = ''null''"
| "json_number NaN = ''null''"

fun JSON_stringify :: "json \<Rightarrow> string"
  and stringify_members :: "(string \<times> json) list \<Rightarrow> string list"
  and stringify_elements :: "json list \<Rightarrow> string list" where
  "JSON_stringify JNull = ''null''"
| "JSON_stringify (JBool b) = (if b then ''true'' else ''false'')"
| "JSON_stringify (JNumber n) = json_number n"
| "JSON_stringify (JString s) = quote s"
| "JSON_stringify (JArray xs) = ''['' @ join '','' (stringify_elements xs) @ '']''"
| "JSON_stringify (JObject kvs) = ''{'' @ join '','' (stringify_members kvs) @ ''}''"
| "stringify_members [] = []"
| "stringify_members (kv # kvs) =
     (quote (fst kv) @ '':'' @ JSON_stringify (snd kv)) # stringify_members kvs"
| "stringify_elements [] = []"
| "stringify_elements (x # xs) = JSON_stringify x # stringify_elements xs"

section \<open>Data model\<close>

text \<open>
  The validator hands the \<^verbatim>\<open>utxoId\<close> object of every input and the output objects to
  \<^verbatim>\<open>JSON.stringify\<close> as the caller built them. Such an object has its two declared
  properties in one order or the other, and it may carry further properties before,
  between and after them; \<open>object_layout\<close> records that, with the further properties as
  \<^verbatim>\<open>JSON.stringify\<close> sees them.
\<close>

record object_layout =
  declared_swapped :: bool
  extra_before :: "(string \<times> json) list"
  extra_between :: "(string \<times> json) list"
  extra_after :: "(string \<times> json) list"

definition object_properties ::
  "object_layout \<Rightarrow> string \<times> json \<Rightarrow> string \<times> json \<Rightarrow> (string \<times> json) list" where
  "object_properties l p q =
     extra_before l @ [if declared_swapped l then q else p]
       @ extra_between l @ [if declared_swapped l then p else q] @ extra_after l"

text \<open>
  The records follow the properties \<^verbatim>\<open>transaction-validator.ts\<close> reads. A JavaScript
  string is a \<^typ>\<open>string\<close>, one \<^typ>\<open>char\<close> per code unit. The property \<^verbatim>\<open>id\<close> of a
  transaction is the field \<open>tx_id\<close>, since \<open>id\<close> is the identity function of HOL.
\<close>

record UTXOId =
  txId :: string
  outputIndex :: index
  utxoId_layout :: object_layout

record TransactionInput =
  utxoId :: UTXOId
  owner :: string
  signature :: string

record TransactionOutput =
  amount :: number
  recipient :: string
  output_layout :: object_layout

record Transaction =
  tx_id :: string
  inputs :: "TransactionInput list"
  outputs :: "TransactionOutput list"
  timestamp :: number

text \<open>
  Modelled from the spec: the pool entry of \<^verbatim>\<open>./types\<close> (origin transaction id,
  output index, owning public key, amount). The validator reads only its amount.
\<close>

record UTXO =
  utxo_txId :: string
  utxo_outputIndex :: index
  utxo_owner :: string
  utxo_amount :: number

text \<open>
  Modelled from the spec: \<^verbatim>\<open>UTXOPoolManager.getUTXO\<close> of \<^verbatim>\<open>./utxo-pool\<close>, a pure
  read \<^verbatim>\<open>lookup(originTxId, outputIndex) -> UTXO | absent\<close> against the snapshot the
  call sees. The pool is the finite map behind that read.
\<close>

type_synonym UTXOPoolManager = "string \<times> index \<rightharpoonup> UTXO"

definition getUTXO :: "UTXOPoolManager \<Rightarrow> string \<Rightarrow> index \<Rightarrow> UTXO option" where
  "getUTXO utxoPool t i = utxoPool (t, i)"

text \<open>
  Modelled from the spec: the closed enumeration of error kinds and the error value
  (kind and message) that \<^verbatim>\<open>createValidationError\<close> of \<^verbatim>\<open>./errors\<close> builds.
\<close>

datatype VALIDATION_ERRORS =
    EMPTY_INPUTS
  | EMPTY_OUTPUTS
  | DOUBLE_SPENDING
  | UTXO_NOT_FOUND
  | INVALID_SIGNATURE
  | AMOUNT_MISMATCH
  | NEGATIVE_AMOUNT

record ValidationError =
  code :: VALIDATION_ERRORS
  message :: string

record ValidationResult =
  valid :: bool
  errors :: "ValidationError list"

definition createValidationError :: "VALIDATION_ERRORS \<Rightarrow> string \<Rightarrow> ValidationError" where
  "createValidationError c m = \<lparr>code = c, message = m\<rparr>"

text \<open>
  The signature verifier \<^verbatim>\<open>verify(message, signature, publicKey)\<close> of
  \<^verbatim>\<open>./utils/crypto\<close> is a parameter of the validator.
\<close>

type_synonym verifier = "string \<Rightarrow> string \<Rightarrow> string \<Rightarrow> bool"

section \<open>The signing payload\<close>

text \<open>
  \<^verbatim>\<open>createTransactionDataForSigning_\<close> builds the object \<^verbatim>\<open>unsignedTx\<close> and hands it
  to \<^verbatim>\<open>JSON.stringify\<close>. The object itself and the object of every input are built by
  the method, with their properties in the order in which the source writes them; the
  \<^verbatim>\<open>utxoId\<close> objects and the output objects are the caller's.
\<close>

definition utxoId_json :: "UTXOId \<Rightarrow> json" where
  "utxoId_json u =
     JObject (object_properties (utxoId_layout u)
       (''txId'', JString (txId u)) (''outputIndex'', JNumber (index_number (outputIndex u))))"

definition output_json :: "TransactionOutput \<Rightarrow> json" where
  "output_json out =
     JObject (object_properties (output_layout out)
       (''amount'', JNumber (amount out)) (''recipient'', JString (recipient out)))"

definition unsigned_input :: "TransactionInput \<Rightarrow> json" where
  "unsigned_input input =
     JObject [(''utxoId'', utxoId_json (utxoId input)), (''owner'', JString (owner input))]"

definition unsignedTx :: "Transaction \<Rightarrow> json" where
  "unsignedTx transaction =
     JObject [(''id'', JString (tx_id transaction)),
              (''inputs'', JArray (map unsigned_input (inputs transaction))),
              (''outputs'', JArray (map output_json (outputs transaction))),
              (''timestamp'', JNumber (timestamp transaction))]"

text \<open>The private method \<^verbatim>\<open>createTransactionDataForSigning_\<close> (a name may not end in an underscore here).\<close>

definition createTransactionDataForSigning :: "Transaction \<Rightarrow> string" where
  "createTransactionDataForSigning transaction = JSON_stringify (unsignedTx transaction)"

section \<open>The validator\<close>

subsection \<open>Messages\<close>

definition empty_inputs_error :: ValidationError where
  "empty_inputs_error =
     createValidationError EMPTY_INPUTS (''La transacci'' @ [CHR 0xF3] @ ''n no tiene entradas'')"

definition empty_outputs_error :: ValidationError where
  "empty_outputs_error =
     createValidationError EMPTY_OUTPUTS (''La transacci'' @ [CHR 0xF3] @ ''n no tiene salidas'')"

definition double_spending_error :: "TransactionInput \<Rightarrow> ValidationError" where
  "double_spending_error input =
     createValidationError DOUBLE_SPENDING
       (''UTXO duplicado: txId='' @ txId (utxoId input) @ '', outputIndex=''
          @ number_to_string (index_number (outputIndex (utxoId input))))"

definition utxo_not_found_error :: "TransactionInput \<Rightarrow> ValidationError" where
  "utxo_not_found_error input =
     createValidationError UTXO_NOT_FOUND
       (''UTXO no encontrado para txId='' @ txId (utxoId input) @ '', outputIndex=''
          @ number_to_string (index_number (outputIndex (utxoId input))))"

definition invalid_signature_error :: "TransactionInput \<Rightarrow> ValidationError" where
  "invalid_signature_error input =
     createValidationError INVALID_SIGNATURE
       (''Firma inv'' @ [CHR 0xE1] @ ''lida para input de txId='' @ txId (utxoId input)
          @ '', outputIndex='' @ number_to_string (index_number (outputIndex (utxoId input))))"

definition amount_mismatch_error :: "number \<Rightarrow> number \<Rightarrow> ValidationError" where
  "amount_mismatch_error totalInput totalOutput =
     createValidationError AMOUNT_MISMATCH
       (''Suma de entradas ('' @ number_to_string totalInput
          @ '') no coincide con suma de salidas ('' @ number_to_string totalOutput @ '')'')"

definition negative_amount_error :: "TransactionOutput \<Rightarrow> ValidationError" where
  "negative_amount_error out =
     createValidationError NEGATIVE_AMOUNT
       (''Output inv'' @ [CHR 0xE1] @ ''lido con monto '' @ number_to_string (amount out)
          @ '' para recipient='' @ recipient out)"

subsection \<open>The loops of \<^verbatim>\<open>validateTransaction\<close>\<close>

definition utxoKey :: "TransactionInput \<Rightarrow> string" where
  "utxoKey input =
     txId (utxoId input) @ '':'' @ number_to_string (index_number (outputIndex (utxoId input)))"

text \<open>Lines 37 to 47: the list \<^verbatim>\<open>used\<close> of keys seen so far, and the error list.\<close>

fun double_spending_loop ::
  "TransactionInput list \<Rightarrow> string list \<Rightarrow> ValidationError list \<Rightarrow> ValidationError list" where
  "double_spending_loop [] used errs = errs"
| "double_spending_loop (input # rest) used errs =
     double_spending_loop rest (used @ [utxoKey input])
       (if utxoKey input \<in> set used then errs @ [double_spending_error input] else errs)"

text \<open>Lines 49 to 70: the running \<^verbatim>\<open>totalInput\<close> and the error list.\<close>

fun inputs_loop ::
  "verifier \<Rightarrow> UTXOPoolManager \<Rightarrow> Transaction \<Rightarrow> TransactionInput list
     \<Rightarrow> number \<times> ValidationError list \<Rightarrow> number \<times> ValidationError list" where
  "inputs_loop verify utxoPool transaction [] st = st"
| "inputs_loop verify utxoPool transaction (input # rest) (totalInput, errs) =
     (case getUTXO utxoPool (txId (utxoId input)) (outputIndex (utxoId input)) of
        None \<Rightarrow>
          inputs_loop verify utxoPool transaction rest
            (totalInput, errs @ [utxo_not_found_error input])
      | Some utxo \<Rightarrow>
          inputs_loop verify utxoPool transaction rest
            (number_add totalInput (utxo_amount utxo),
             if \<not> verify (createTransactionDataForSigning transaction) (signature input) (owner input)
             then errs @ [invalid_signature_error input] else errs))"

text \<open>Lines 72 to 75.\<close>

fun total_output_loop :: "TransactionOutput list \<Rightarrow> number \<Rightarrow> number" where
  "total_output_loop [] totalOutput = totalOutput"
| "total_output_loop (out # rest) totalOutput =
     total_output_loop rest (number_add totalOutput (amount out))"

text \<open>Lines 85 to 94: the loop adds every amount to \<^verbatim>\<open>totalOutput\<close> once more.\<close>

fun negative_amount_loop ::
  "TransactionOutput list \<Rightarrow> number \<times> ValidationError list \<Rightarrow> number \<times> ValidationError list" where
  "negative_amount_loop [] st = st"
| "negative_amount_loop (out # rest) (totalOutput, errs) =
     negative_amount_loop rest
       (number_add totalOutput (amount out),
        if number_le_zero (amount out) then errs @ [negative_amount_error out] else errs)"

subsection \<open>\<^verbatim>\<open>validateTransaction\<close>\<close>

definition validateTransaction ::
  "verifier \<Rightarrow> UTXOPoolManager \<Rightarrow> Transaction \<Rightarrow> ValidationResult" where
  "validateTransaction verify utxoPool transaction =
     (let errs0 = [];
          errs1 = (if length (inputs transaction) = 0 then errs0 @ [empty_inputs_error] else errs0);
          errs2 = (if length (outputs transaction) = 0 then errs1 @ [empty_outputs_error] else errs1);
          errs3 = double_spending_loop (inputs transaction) [] errs2;
          (totalInput, errs4) =
            inputs_loop verify utxoPool transaction (inputs transaction) (Finite 0, errs3);
          totalOutput = total_output_loop (outputs transaction) (Finite 0);
          errs5 = (if number_neq totalInput totalOutput
                   then errs4 @ [amount_mismatch_error totalInput totalOutput] else errs4);
          (totalOutput', errs6) = negative_amount_loop (outputs transaction) (totalOutput, errs5)
      in \<lparr>valid = (length errs6 = 0), errors = errs6\<rparr>)"

text \<open>
  The variant validator of \<^verbatim>\<open>src/unnamed/part_000\<close>: the same method without the
  duplicate-reference loop and without the loop over non-positive outputs.
\<close>

definition validateTransaction_variant ::
  "verifier \<Rightarrow> UTXOPoolManager \<Rightarrow> Transaction \<Rightarrow> ValidationResult" where
  "validateTransaction_variant verify utxoPool transaction =
     (let errs0 = [];
          errs1 = (if length (inputs transaction) = 0 then errs0 @ [empty_inputs_error] else errs0);
          errs2 = (if length (outputs transaction) = 0 then errs1 @ [empty_outputs_error] else errs1);
          (totalInput, errs3) =
            inputs_loop verify utxoPool transaction (inputs transaction) (Finite 0, errs2);
          totalOutput = total_output_loop (outputs transaction) (Finite 0);
          errs4 = (if number_neq totalInput totalOutput
                   then errs3 @ [amount_mismatch_error totalInput totalOutput] else errs3)
      in \<lparr>valid = (length errs4 = 0), errors = errs4\<rparr>)"

subsection \<open>The method with the effects of its collaborators\<close>

text \<open>
  The method keeps its working state (\<^verbatim>\<open>errors\<close>, \<^verbatim>\<open>used\<close>, the two totals) in local
  variables and assigns to no field. What lies outside it, the pool behind
  \<^verbatim>\<open>this.utxoPool\<close> and whatever the verifier reaches, is the world \<open>'w\<close>; the method
  touches it only through its calls of \<^verbatim>\<open>getUTXO\<close> and \<^verbatim>\<open>verify\<close>. Here both calls
  take the world and return it as they leave it, and the method threads it through its
  calls in the order of the source: one lookup for every input, and one verification for
  every input whose UTXO the lookup returned.
\<close>

type_synonym 'w getUTXO_call = "'w \<Rightarrow> string \<Rightarrow> index \<Rightarrow> UTXO option \<times> 'w"

type_synonym 'w verify_call = "'w \<Rightarrow> string \<Rightarrow> string \<Rightarrow> string \<Rightarrow> bool \<times> 'w"

fun inputs_loop_run ::
  "'w verify_call \<Rightarrow> 'w getUTXO_call \<Rightarrow> Transaction \<Rightarrow> TransactionInput list
     \<Rightarrow> (number \<times> ValidationError list) \<times> 'w \<Rightarrow> (number \<times> ValidationError list) \<times> 'w" where
  "inputs_loop_run verify_call getUTXO_call transaction [] st = st"
| "inputs_loop_run verify_call getUTXO_call transaction (input # rest) ((totalInput, errs), w) =
     (case getUTXO_call w (txId (utxoId input)) (outputIndex (utxoId input)) of
        (None, w1) \<Rightarrow>
          inputs_loop_run verify_call getUTXO_call transaction rest
            ((totalInput, errs @ [utxo_not_found_error input]), w1)
      | (Some utxo, w1) \<Rightarrow>
          (case verify_call w1 (createTransactionDataForSigning transaction)
                  (signature input) (owner input) of
             (isValid, w2) \<Rightarrow>
               inputs_loop_run verify_call getUTXO_call transaction rest
                 ((number_add totalInput (utxo_amount utxo),
                   if \<not> isValid then errs @ [invalid_signature_error input] else errs), w2)))"

definition validateTransaction_run ::
  "'w verify_call \<Rightarrow> 'w getUTXO_call \<Rightarrow> Transaction \<Rightarrow> 'w \<Rightarrow> ValidationResult \<times> 'w" where
  "validateTransaction_run verify_call getUTXO_call transaction w =
     (let errs0 = [];
          errs1 = (if length (inputs transaction) = 0 then errs0 @ [empty_inputs_error] else errs0);
          errs2 = (if length (outputs transaction) = 0 then errs1 @ [empty_outputs_error] else errs1);
          errs3 = double_spending_loop (inputs transaction) [] errs2;
          ((totalInput, errs4), w') =
            inputs_loop_run verify_call getUTXO_call transaction (inputs transaction)
              ((Finite 0, errs3), w);
          totalOutput = total_output_loop (outputs transaction) (Finite 0);
          errs5 = (if number_neq totalInput totalOutput
                   then errs4 @ [amount_mismatch_error totalInput totalOutput] else errs4);
          (totalOutput', errs6) = negative_amount_loop (outputs transaction) (totalOutput, errs5)
      in (\<lparr>valid = (length errs6 = 0), errors = errs6\<rparr>, w'))"

text \<open>What a lookup and a verification return in a given world.\<close>

definition pool_in :: "'w getUTXO_call \<Rightarrow> 'w \<Rightarrow> UTXOPoolManager" where
  "pool_in getUTXO_call w = (\<lambda>(t, i). fst (getUTXO_call w t i))"

definition verify_in :: "'w verify_call \<Rightarrow> 'w \<Rightarrow> verifier" where
  "verify_in verify_call w = (\<lambda>msg sig publicKey. fst (verify_call w msg sig publicKey))"

section \<open>What each check is expected to report\<close>

text \<open>
  The definitions of this section describe the checks one by one; they are what the
  loops above are compared with.
\<close>

definition input_ref :: "TransactionInput \<Rightarrow> string \<times> index" where
  "input_ref input = (txId (utxoId input), outputIndex (utxoId input))"

text \<open>The inputs whose reference already occurred, either in \<open>seen\<close> or earlier in the list.\<close>

fun duplicate_inputs :: "(string \<times> index) list \<Rightarrow> TransactionInput list \<Rightarrow> TransactionInput list" where
  "duplicate_inputs seen [] = []"
| "duplicate_inputs seen (input # rest) =
     (if input_ref input \<in> set seen then [input] else [])
       @ duplicate_inputs (seen @ [input_ref input]) rest"

definition structural_errors :: "Transaction \<Rightarrow> ValidationError list" where
  "structural_errors transaction =
     (if inputs transaction = [] then [empty_inputs_error] else [])
       @ (if outputs transaction = [] then [empty_outputs_error] else [])"

definition input_errors :: "verifier \<Rightarrow> UTXOPoolManager \<Rightarrow> Transaction \<Rightarrow> TransactionInput \<Rightarrow> ValidationError list" where
  "input_errors verify utxoPool transaction input =
     (case utxoPool (input_ref input) of
        None \<Rightarrow> [utxo_not_found_error input]
      | Some utxo \<Rightarrow>
          (if verify (createTransactionDataForSigning transaction) (signature input) (owner input)
           then [] else [invalid_signature_error input]))"

text \<open>The amounts of the inputs whose UTXO is in the pool, one entry per occurrence.\<close>

fun resolved_amounts :: "UTXOPoolManager \<Rightarrow> TransactionInput list \<Rightarrow> number list" where
  "resolved_amounts utxoPool [] = []"
| "resolved_amounts utxoPool (input # rest) =
     (case utxoPool (input_ref input) of
        None \<Rightarrow> resolved_amounts utxoPool rest
      | Some utxo \<Rightarrow> utxo_amount utxo # resolved_amounts utxoPool rest)"

text \<open>
  A total as the method accumulates it: the amounts added one by one, from the left and
  starting from 0, each sum rounded to a double.
\<close>

definition accumulated :: "number list \<Rightarrow> number" where
  "accumulated xs = foldl number_add (Finite 0) xs"

definition resolved_total :: "UTXOPoolManager \<Rightarrow> Transaction \<Rightarrow> number" where
  "resolved_total utxoPool transaction = accumulated (resolved_amounts utxoPool (inputs transaction))"

definition output_total :: "Transaction \<Rightarrow> number" where
  "output_total transaction = accumulated (map amount (outputs transaction))"

text \<open>
  Integers whose sums stay exact: every sum of the first entries, added to \<open>acc\<close>, is an
  integer of magnitude below \<open>2 ^ 53\<close>.
\<close>

fun safe_sums :: "int \<Rightarrow> int list \<Rightarrow> bool" where
  "safe_sums acc [] = True"
| "safe_sums acc (x # xs) = (\<bar>acc + x\<bar> < 2 ^ 53 \<and> safe_sums (acc + x) xs)"

definition balance_errors :: "UTXOPoolManager \<Rightarrow> Transaction \<Rightarrow> ValidationError list" where
  "balance_errors utxoPool transaction =
     (if number_neq (resolved_total utxoPool transaction) (output_total transaction)
      then [amount_mismatch_error (resolved_total utxoPool transaction) (output_total transaction)]
      else [])"

definition non_positive_outputs :: "Transaction \<Rightarrow> TransactionOutput list" where
  "non_positive_outputs transaction =
     filter (\<lambda>out. number_le_zero (amount out)) (outputs transaction)"

definition errors_of_kind :: "VALIDATION_ERRORS \<Rightarrow> ValidationResult \<Rightarrow> ValidationError list" where
  "errors_of_kind k r = filter (\<lambda>e. code e = k) (errors r)"

text \<open>The position of each kind in the order in which the method runs its checks.\<close>

fun check_position :: "VALIDATION_ERRORS \<Rightarrow> nat" where
  "check_position EMPTY_INPUTS = 0"
| "check_position EMPTY_OUTPUTS = 1"
| "check_position DOUBLE_SPENDING = 2"
| "check_position UTXO_NOT_FOUND = 3"
| "check_position INVALID_SIGNATURE = 3"
| "check_position AMOUNT_MISMATCH = 4"
| "check_position NEGATIVE_AMOUNT = 5"



section \<open>Concrete transactions\<close>

text \<open>
  A pool that holds exactly the UTXO of transaction \<open>A\<close>, index 0, owner \<open>K\<close>, amount 10,
  a verifier that accepts the signature \<open>signed:\<close> followed by the key, and a few
  transactions against them. The objects of these transactions have their two declared
  properties in the order of the records and no further property, but for the output
  of \<open>tx_ok_swapped\<close>.
\<close>

definition example_verify :: verifier where
  "example_verify msg sig publicKey = (sig = ''signed:'' @ publicKey)"

definition plain :: object_layout where
  "plain = \<lparr>declared_swapped = False, extra_before = [], extra_between = [], extra_after = []\<rparr>"


definition utxo_A0 :: UTXO where
  "utxo_A0 = \<lparr>utxo_txId = ''A'', utxo_outputIndex = 0, utxo_owner = ''K'', utxo_amount = Finite 10\<rparr>"

definition pool_A :: UTXOPoolManager where
  "pool_A = [(''A'', 0) \<mapsto> utxo_A0]"

definition input_A0 :: TransactionInput where
  "input_A0 = \<lparr>utxoId = \<lparr>txId = ''A'', outputIndex = 0, utxoId_layout = plain\<rparr>,
      owner = ''K'', signature = ''signed:K''\<rparr>"


definition input_B1 :: TransactionInput where
  "input_B1 = \<lparr>utxoId = \<lparr>txId = ''B'', outputIndex = 1, utxoId_layout = plain\<rparr>,
      owner = ''K'', signature = ''signed:K''\<rparr>"

definition output_R :: "int \<Rightarrow> TransactionOutput" where
  "output_R n = \<lparr>amount = Finite n, recipient = ''R'', output_layout = plain\<rparr>"


definition tx_ok :: Transaction where
  "tx_ok = \<lparr>tx_id = ''T1'', inputs = [input_A0], outputs = [output_R 10], timestamp = Finite 1700\<rparr>"



definition tx_twice :: Transaction where
  "tx_twice = \<lparr>tx_id = ''T2'', inputs = [input_A0, input_A0],
      outputs = [output_R 10, output_R 10], timestamp = Finite 1700\<rparr>"

definition tx_negative :: Transaction where
  "tx_negative = \<lparr>tx_id = ''T3'', inputs = [input_A0], outputs = [output_R (- 5)],
      timestamp = Finite 1700\<rparr>"

definition tx_missing :: Transaction where
  "tx_missing = \<lparr>tx_id = ''T4'', inputs = [input_A0, input_B1], outputs = [output_R 10],
      timestamp = Finite 1700\<rparr>"

definition tx_zero :: Transaction where
  "tx_zero = \<lparr>tx_id = ''T5'', inputs = [input_A0], outputs = [output_R 10, output_R 0],
      timestamp = Finite 1700\<rparr>"

text \<open>
  A pool with the UTXO \<open>A\<close>, index 0, of amount \<open>2 ^ 53\<close> and the UTXO \<open>B\<close>, index 1, of
  amount 1, and a transaction that spends both into one output of amount \<open>2 ^ 53\<close>.
\<close>

definition pool_big :: UTXOPoolManager where
  "pool_big =
     [(''A'', 0) \<mapsto> \<lparr>utxo_txId = ''A'', utxo_outputIndex = 0, utxo_owner = ''K'',
                        utxo_amount = Finite 9007199254740992\<rparr>,
      (''B'', 1) \<mapsto> \<lparr>utxo_txId = ''B'', utxo_outputIndex = 1, utxo_owner = ''K'',
                        utxo_amount = Finite 1\<rparr>]"

definition tx_big :: Transaction where
  "tx_big = \<lparr>tx_id = ''T6'', inputs = [input_A0, input_B1],
      outputs = [output_R 9007199254740992], timestamp = Finite 1700\<rparr>"

text \<open>
  Collaborators on a world that is the pool itself: a lookup and a verifier that leave
  the world as it is, and a lookup that removes the entry it returns.
\<close>

definition lookup_call :: "UTXOPoolManager getUTXO_call" where
  "lookup_call w t i = (w (t, i), w)"

definition example_verify_call :: "UTXOPoolManager verify_call" where
  "example_verify_call w msg sig publicKey = (example_verify msg sig publicKey, w)"

definition consuming_lookup_call :: "UTXOPoolManager getUTXO_call" where
  "consuming_lookup_call w t i = (w (t, i), w((t, i) := None))"

section \<open>Decimal text and message texts\<close>

lemma digit_char_cases: "digit_char d \<in> set ''0123456789''"
proof -
  have "nat (d mod 10) < length ''0123456789''" by simp
  then show ?thesis unfolding digit_char_def by (rule nth_mem)
qed

lemma digit_char_inj:
  assumes "0 \<le> a" "a < 10" "0 \<le> b" "b < 10" "digit_char a = digit_char b" shows "a = b"
proof -
  have d: "distinct ''0123456789''" by simp
  have "(''0123456789'' ! nat a = ''0123456789'' ! nat b) = (nat a = nat b)"
    using assms(1-4) by (intro nth_eq_iff_index_eq [OF d]) simp_all
  with assms show ?thesis by (simp add: digit_char_def)
qed

lemma decimal_digits: "c \<in> set (decimal n) \<Longrightarrow> c \<in> set ''0123456789''"
proof (induction n rule: decimal.induct)
  case (1 n)
  show ?case
  proof (cases "n < 10")
    case True
    with 1(2) have "c = digit_char n" by (simp add: decimal.simps [of n])
    then show ?thesis using digit_char_cases [of n] by simp
  next
    case False
    with 1(2) have "c \<in> set (decimal (n div 10)) \<or> c = digit_char (n mod 10)"
      by (auto simp: decimal.simps [of n])
    then show ?thesis
    proof
      assume "c \<in> set (decimal (n div 10))"
      with 1(1) False show ?thesis by simp
    next
      assume "c = digit_char (n mod 10)"
      then show ?thesis using digit_char_cases [of "n mod 10"] by simp
    qed
  qed
qed

lemma decimal_nonempty: "decimal n \<noteq> []"
  by (subst decimal.simps) simp

lemma decimal_inj: "0 \<le> n \<Longrightarrow> 0 \<le> m \<Longrightarrow> decimal n = decimal m \<Longrightarrow> n = m"
proof (induction n arbitrary: m rule: decimal.induct)
  case (1 n)
  show ?case
  proof (cases "n < 10")
    case n: True
    show ?thesis
    proof (cases "m < 10")
      case True
      with n 1(2-4) show ?thesis
        by (simp add: decimal.simps [of n] decimal.simps [of m] digit_char_inj)
    next
      case False
      with n 1(4) decimal_nonempty [of "m div 10"] show ?thesis
        by (simp add: decimal.simps [of n] decimal.simps [of m])
    qed
  next
    case n: False
    show ?thesis
    proof (cases "m < 10")
      case True
      with n 1(4) decimal_nonempty [of "n div 10"] show ?thesis
        by (simp add: decimal.simps [of n] decimal.simps [of m])
    next
      case False
      with n 1(4) have e: "decimal (n div 10) = decimal (m div 10)"
        and d: "digit_char (n mod 10) = digit_char (m mod 10)"
        by (simp_all add: decimal.simps [of n] decimal.simps [of m])
      from 1(2,3) have "0 \<le> n div 10" "0 \<le> m div 10" by simp_all
      with 1(1) [OF n _ _ e] have "n div 10 = m div 10" by simp
      moreover from d have "n mod 10 = m mod 10" by (intro digit_char_inj) simp_all
      ultimately show ?thesis by (metis div_mult_mod_eq)
    qed
  qed
qed

text \<open>The text of an output index is its decimal.\<close>

lemma index_text: "number_to_string (index_number i) = decimal (uint i)"
proof -
  have "uint i < 2 ^ 32" using uint_bounded [of i] by simp
  also have "(2::int) ^ 32 < 2 ^ 53" by simp
  finally have "uint i < 2 ^ 53" .
  then show ?thesis by (simp add: index_number_def magnitude_to_string_def)
qed

lemma index_text_chars: "c \<in> set (number_to_string (index_number i)) \<Longrightarrow> c \<in> set ''0123456789''"
  unfolding index_text by (rule decimal_digits)

lemma index_text_inj:
  "number_to_string (index_number i) = number_to_string (index_number j) \<Longrightarrow> i = j"
proof -
  assume "number_to_string (index_number i) = number_to_string (index_number j)"
  then have "decimal (uint i) = decimal (uint j)" by (simp only: index_text)
  then have "uint i = uint j" by (intro decimal_inj) simp_all
  then show ?thesis by (rule word_uint_eqI)
qed

lemma split_at_first:
  "s @ c # xs = t @ c # ys \<Longrightarrow> c \<notin> set s \<Longrightarrow> c \<notin> set t \<Longrightarrow> s = t \<and> xs = ys"
proof (induction s arbitrary: t)
  case Nil
  then show ?case by (cases t) auto
next
  case (Cons a s)
  then show ?case by (cases t) auto
qed

lemma split_at_last:
  assumes "xs @ c # s = ys @ c # t" "c \<notin> set s" "c \<notin> set t"
  shows "xs = ys \<and> s = t"
proof -
  from assms(1) have "rev (xs @ c # s) = rev (ys @ c # t)" by (rule arg_cong)
  then have "rev s @ c # rev xs = rev t @ c # rev ys" by simp
  moreover from assms(2,3) have "c \<notin> set (rev s)" "c \<notin> set (rev t)" by simp_all
  ultimately have "rev s = rev t \<and> rev xs = rev ys" by (rule split_at_first)
  then show ?thesis by simp
qed

text \<open>A key or a message that ends in the text of the index determines the reference.\<close>

lemma utxoKey_eq_iff: "(utxoKey a = utxoKey b) = (input_ref a = input_ref b)"
proof
  assume e: "utxoKey a = utxoKey b"
  have "CHR '':'' \<notin> set (number_to_string (index_number (outputIndex (utxoId a))))"
    "CHR '':'' \<notin> set (number_to_string (index_number (outputIndex (utxoId b))))"
    using index_text_chars by fastforce+
  with e have "txId (utxoId a) = txId (utxoId b) \<and>
      number_to_string (index_number (outputIndex (utxoId a)))
        = number_to_string (index_number (outputIndex (utxoId b)))"
    unfolding utxoKey_def by (intro split_at_last [where c = "CHR '':''"]) simp_all
  then show "input_ref a = input_ref b" by (simp add: input_ref_def index_text_inj)
next
  assume "input_ref a = input_ref b"
  then show "utxoKey a = utxoKey b" by (simp add: input_ref_def utxoKey_def)
qed

lemma ref_message_inj:
  assumes "p @ txId (utxoId a) @ '', outputIndex='' @ number_to_string (index_number (outputIndex (utxoId a)))
         = p @ txId (utxoId b) @ '', outputIndex='' @ number_to_string (index_number (outputIndex (utxoId b)))"
  shows "input_ref a = input_ref b"
proof -
  have n: "CHR ''='' \<notin> set (number_to_string (index_number (outputIndex (utxoId a))))"
    "CHR ''='' \<notin> set (number_to_string (index_number (outputIndex (utxoId b))))"
    using index_text_chars by fastforce+
  from assms have "(txId (utxoId a) @ '', outputIndex'') @ CHR ''='' # number_to_string (index_number (outputIndex (utxoId a)))
       = (txId (utxoId b) @ '', outputIndex'') @ CHR ''='' # number_to_string (index_number (outputIndex (utxoId b)))"
    by simp
  from split_at_last [OF this n]
  show ?thesis by (simp add: input_ref_def index_text_inj)
qed

lemma double_spending_error_eq_iff:
  "(double_spending_error a = double_spending_error b) = (input_ref a = input_ref b)"
proof
  assume "double_spending_error a = double_spending_error b"
  then show "input_ref a = input_ref b"
    unfolding double_spending_error_def createValidationError_def
    using ref_message_inj [of "''UTXO duplicado: txId=''" a b] by simp
next
  assume "input_ref a = input_ref b"
  then show "double_spending_error a = double_spending_error b"
    by (simp add: input_ref_def double_spending_error_def)
qed

lemma invalid_signature_error_eq_iff:
  "(invalid_signature_error a = invalid_signature_error b) = (input_ref a = input_ref b)"
proof
  assume "invalid_signature_error a = invalid_signature_error b"
  then show "input_ref a = input_ref b"
    unfolding invalid_signature_error_def createValidationError_def
    using ref_message_inj [of "''Firma inv'' @ [CHR 0xE1] @ ''lida para input de txId=''" a b] by simp
next
  assume "input_ref a = input_ref b"
  then show "invalid_signature_error a = invalid_signature_error b"
    by (simp add: input_ref_def invalid_signature_error_def)
qed

lemma utxo_not_found_error_eq_iff:
  "(utxo_not_found_error a = utxo_not_found_error b) = (input_ref a = input_ref b)"
proof
  assume "utxo_not_found_error a = utxo_not_found_error b"
  then show "input_ref a = input_ref b"
    unfolding utxo_not_found_error_def createValidationError_def
    using ref_message_inj [of "''UTXO no encontrado para txId=''" a b] by simp
next
  assume "input_ref a = input_ref b"
  then show "utxo_not_found_error a = utxo_not_found_error b"
    by (simp add: input_ref_def utxo_not_found_error_def)
qed

section \<open>The loops, one by one\<close>

lemma utxoKey_in_used:
  "(utxoKey input \<in> utxoKey ` S) = (input_ref input \<in> input_ref ` S)"
  by (auto simp: utxoKey_eq_iff image_iff)

lemma code_simps [simp]:
  "code empty_inputs_error = EMPTY_INPUTS"
  "code empty_outputs_error = EMPTY_OUTPUTS"
  "code (double_spending_error i) = DOUBLE_SPENDING"
  "code (utxo_not_found_error i) = UTXO_NOT_FOUND"
  "code (invalid_signature_error i) = INVALID_SIGNATURE"
  "code (amount_mismatch_error a b) = AMOUNT_MISMATCH"
  "code (negative_amount_error out) = NEGATIVE_AMOUNT"
  by (simp_all add: empty_inputs_error_def empty_outputs_error_def double_spending_error_def
      utxo_not_found_error_def invalid_signature_error_def amount_mismatch_error_def
      negative_amount_error_def createValidationError_def)

lemma double_spending_loop_eq:
  "double_spending_loop xs (map utxoKey seen) errs
     = errs @ map double_spending_error (duplicate_inputs (map input_ref seen) xs)"
proof (induction xs arbitrary: seen errs)
  case Nil
  show ?case by simp
next
  case (Cons x xs)
  have m: "(utxoKey x \<in> set (map utxoKey seen)) = (input_ref x \<in> set (map input_ref seen))"
    using utxoKey_in_used [of x "set seen"] by simp
  have u: "map utxoKey seen @ [utxoKey x] = map utxoKey (seen @ [x])"
    and r: "map input_ref seen @ [input_ref x] = map input_ref (seen @ [x])" by simp_all
  show ?case
    unfolding double_spending_loop.simps duplicate_inputs.simps m u r Cons.IH
    by simp
qed

lemma inputs_loop_eq:
  "inputs_loop verify utxoPool transaction xs (t0, errs)
     = (foldl number_add t0 (resolved_amounts utxoPool xs),
        errs @ concat (map (input_errors verify utxoPool transaction) xs))"
proof (induction xs arbitrary: t0 errs)
  case Nil
  show ?case by simp
next
  case (Cons x xs)
  show ?case
  proof (cases "utxoPool (input_ref x)")
    case None
    then show ?thesis
      by (simp add: Cons.IH getUTXO_def input_ref_def input_errors_def)
  next
    case (Some u)
    then show ?thesis
      by (simp add: Cons.IH getUTXO_def input_ref_def input_errors_def)
  qed
qed

lemma total_output_loop_eq:
  "total_output_loop outs t0 = foldl number_add t0 (map amount outs)"
  by (induction outs arbitrary: t0) simp_all

lemma negative_amount_loop_eq:
  "negative_amount_loop outs (t0, errs)
     = (foldl number_add t0 (map amount outs),
        errs @ map negative_amount_error (filter (\<lambda>out. number_le_zero (amount out)) outs))"
  by (induction outs arbitrary: t0 errs) simp_all

lemma errors_validateTransaction:
  "errors (validateTransaction verify utxoPool transaction)
     = structural_errors transaction
       @ map double_spending_error (duplicate_inputs [] (inputs transaction))
       @ concat (map (input_errors verify utxoPool transaction) (inputs transaction))
       @ balance_errors utxoPool transaction
       @ map negative_amount_error (non_positive_outputs transaction)"
  using double_spending_loop_eq [of "inputs transaction" "[]"]
  by (simp add: validateTransaction_def Let_def inputs_loop_eq total_output_loop_eq
      negative_amount_loop_eq structural_errors_def balance_errors_def resolved_total_def
      output_total_def non_positive_outputs_def accumulated_def)

lemma valid_validateTransaction:
  "valid (validateTransaction verify utxoPool transaction)
     = (errors (validateTransaction verify utxoPool transaction) = [])"
  by (simp add: validateTransaction_def Let_def split: prod.splits)

lemma errors_validateTransaction_variant:
  "errors (validateTransaction_variant verify utxoPool transaction)
     = structural_errors transaction
       @ concat (map (input_errors verify utxoPool transaction) (inputs transaction))
       @ balance_errors utxoPool transaction"
  by (simp add: validateTransaction_variant_def Let_def inputs_loop_eq total_output_loop_eq
      structural_errors_def balance_errors_def resolved_total_def output_total_def accumulated_def)

lemma valid_validateTransaction_variant:
  "valid (validateTransaction_variant verify utxoPool transaction)
     = (errors (validateTransaction_variant verify utxoPool transaction) = [])"
  by (simp add: validateTransaction_variant_def Let_def split: prod.splits)

section \<open>The method and its collaborators\<close>

text \<open>
  With collaborators that leave the world as it is, the loop with effects is the loop
  over what they return in that world, and the world stays.
\<close>

lemma inputs_loop_run_read_only:
  assumes g: "\<forall>w t i. snd (getUTXO_call w t i) = w"
    and v: "\<forall>w m s k. snd (verify_call w m s k) = w"
  shows "inputs_loop_run verify_call getUTXO_call transaction xs (st, w)
     = (inputs_loop (verify_in verify_call w) (pool_in getUTXO_call w) transaction xs st, w)"
proof (induction xs arbitrary: st)
  case Nil
  show ?case by simp
next
  case (Cons x xs)
  obtain t0 errs where st: "st = (t0, errs)" by (cases st)
  obtain r w1 where c: "getUTXO_call w (txId (utxoId x)) (outputIndex (utxoId x)) = (r, w1)"
    by (cases "getUTXO_call w (txId (utxoId x)) (outputIndex (utxoId x))")
  with g have w1: "w1 = w" by (metis snd_conv)
  from c have r: "getUTXO (pool_in getUTXO_call w) (txId (utxoId x)) (outputIndex (utxoId x)) = r"
    by (simp add: getUTXO_def pool_in_def)
  show ?case
  proof (cases r)
    case None
    with c w1 r show ?thesis by (simp add: st Cons.IH)
  next
    case (Some u)
    obtain b w2 where d: "verify_call w (createTransactionDataForSigning transaction)
        (signature x) (owner x) = (b, w2)"
      by (cases "verify_call w (createTransactionDataForSigning transaction) (signature x) (owner x)")
    with v have w2: "w2 = w" by (metis snd_conv)
    from d have b: "verify_in verify_call w (createTransactionDataForSigning transaction)
        (signature x) (owner x) = b" by (simp add: verify_in_def)
    from Some c w1 r d w2 b show ?thesis by (simp add: st Cons.IH)
  qed
qed

lemma validateTransaction_run_read_only:
  assumes g: "\<forall>w t i. snd (getUTXO_call w t i) = w"
    and v: "\<forall>w m s k. snd (verify_call w m s k) = w"
  shows "validateTransaction_run verify_call getUTXO_call transaction w
     = (validateTransaction (verify_in verify_call w) (pool_in getUTXO_call w) transaction, w)"
  unfolding validateTransaction_run_def validateTransaction_def Let_def
    inputs_loop_run_read_only [OF g v]
  by (simp split: prod.splits)

text \<open>
  A lookup that writes shows in the result of the next call. With a lookup that removes the entry it
  returns, the first call on \<open>tx_ok\<close> accepts the transaction and leaves a pool without
  the UTXO, and the second call rejects the transaction.
\<close>

lemma consuming_lookup_second_call_differs:
  "fst (validateTransaction_run example_verify_call consuming_lookup_call tx_ok pool_A)
     = \<lparr>valid = True, errors = []\<rparr>
   \<and> snd (validateTransaction_run example_verify_call consuming_lookup_call tx_ok pool_A) (''A'', 0) = None
   \<and> map code (errors (fst (validateTransaction_run example_verify_call consuming_lookup_call tx_ok
        (snd (validateTransaction_run example_verify_call consuming_lookup_call tx_ok pool_A)))))
     = [UTXO_NOT_FOUND, AMOUNT_MISMATCH]"
  by code_simp

section \<open>The numbers on known values\<close>

text \<open>
  Sums and texts as the language gives them: \<open>2 ^ 53 + 1\<close> and \<open>2 ^ 53 + 3\<close> round to
  the even neighbour, the largest double plus itself is infinite, \<open>2 ^ 64\<close> is written
  with its 17 shortest digits, and the exponent form starts at \<open>10 ^ 21\<close>.
\<close>

lemma number_add_known_values:
  "number_add (Finite 9007199254740992) (Finite 1) = Finite 9007199254740992"
  "number_add (Finite 9007199254740992) (Finite 3) = Finite 9007199254740996"
  "number_add (Finite 10) (Finite (- 15)) = Finite (- 5)"
  "number_add (Finite (2 ^ 1023)) (Finite (2 ^ 1023)) = PosInf"
  "number_add PosInf NegInf = NaN"
  "number_add (Finite 1) NaN = NaN"
  by code_simp+

lemma number_to_string_known_values:
  "number_to_string (Finite 0) = ''0''"
  "number_to_string (Finite (- 1203)) = ''-1203''"
  "number_to_string (Finite 9007199254740992) = ''9007199254740992''"
  "number_to_string (Finite 18446744073709551616) = ''18446744073709552000''"
  "number_to_string (Finite 999999999999999868928) = ''999999999999999900000''"
  "number_to_string (Finite 1000000000000000000000) = ''1e+21''"
  "number_to_string (Finite 99999999999999991611392) = ''1e+23''"
  "number_to_string (Finite (- 1180591620717411303424)) = ''-1.1805916207174113e+21''"
  "number_to_string NaN = ''NaN''"
  "number_to_string PosInf = ''Infinity''"
  by code_simp+

section \<open>Sums that stay exact\<close>

lemma bit_length_le: "a < 2 ^ k \<Longrightarrow> bit_length a \<le> k"
proof (induction k arbitrary: a)
  case 0
  then have "a \<le> 0" by simp
  then show ?case by (simp add: bit_length.simps [of a])
next
  case (Suc k)
  show ?case
  proof (cases "a \<le> 0")
    case True
    then show ?thesis by (simp add: bit_length.simps [of a])
  next
    case False
    from Suc.prems have "a div 2 < 2 ^ k" by simp
    then have "bit_length (a div 2) \<le> k" by (rule Suc.IH)
    with False show ?thesis by (simp add: bit_length.simps [of a])
  qed
qed

lemma round_double_exact: "\<bar>x\<bar> < 2 ^ 53 \<Longrightarrow> round_double x = Finite x"
  using bit_length_le [of "\<bar>x\<bar>" 53] by (simp add: round_double_def)

lemma foldl_number_add_exact:
  "safe_sums acc xs \<Longrightarrow> foldl number_add (Finite acc) (map Finite xs) = Finite (acc + sum_list xs)"
proof (induction xs arbitrary: acc)
  case Nil
  show ?case by simp
next
  case (Cons x xs)
  then have "round_double (acc + x) = Finite (acc + x)" and "safe_sums (acc + x) xs"
    by (simp_all add: round_double_exact)
  with Cons.IH [of "acc + x"] show ?case by (simp add: add.assoc)
qed

text \<open>Two doubles of sum 20 are summed to 20 by the method.\<close>

lemma two_amounts_of_sum_20:
  assumes "round_double a1 = Finite a1" "a1 + a2 = 20"
  shows "number_add (number_add (Finite 0) (Finite a1)) (Finite a2) = Finite 20"
  using assms by (simp add: round_double_exact)

lemma accumulated_exact:
  "safe_sums 0 xs \<Longrightarrow> accumulated (map Finite xs) = Finite (sum_list xs)"
  using foldl_number_add_exact [of 0 xs] by (simp add: accumulated_def)

section \<open>The errors of one kind\<close>

lemma code_input_errors:
  "e \<in> set (input_errors verify utxoPool transaction input)
     \<Longrightarrow> code e = UTXO_NOT_FOUND \<or> code e = INVALID_SIGNATURE"
  by (auto simp: input_errors_def split: option.splits if_splits)

lemma filter_code_structural:
  "k \<noteq> EMPTY_INPUTS \<Longrightarrow> k \<noteq> EMPTY_OUTPUTS
     \<Longrightarrow> filter (\<lambda>e. code e = k) (structural_errors transaction) = []"
  by (auto simp: structural_errors_def)

lemma filter_code_double_spending:
  "filter (\<lambda>e. code e = k) (map double_spending_error xs)
     = (if k = DOUBLE_SPENDING then map double_spending_error xs else [])"
  by (induction xs) auto

lemma filter_code_negative_amount:
  "filter (\<lambda>e. code e = k) (map negative_amount_error xs)
     = (if k = NEGATIVE_AMOUNT then map negative_amount_error xs else [])"
  by (induction xs) auto

lemma filter_code_balance:
  "filter (\<lambda>e. code e = k) (balance_errors utxoPool transaction)
     = (if k = AMOUNT_MISMATCH then balance_errors utxoPool transaction else [])"
  by (auto simp: balance_errors_def)

lemma filter_code_input_errors:
  "k \<noteq> UTXO_NOT_FOUND \<Longrightarrow> k \<noteq> INVALID_SIGNATURE
     \<Longrightarrow> filter (\<lambda>e. code e = k) (concat (map (input_errors verify utxoPool transaction) xs)) = []"
proof -
  assume k: "k \<noteq> UTXO_NOT_FOUND" "k \<noteq> INVALID_SIGNATURE"
  have "\<And>e. e \<in> set (concat (map (input_errors verify utxoPool transaction) xs)) \<Longrightarrow> code e \<noteq> k"
    using k code_input_errors by fastforce
  then show ?thesis unfolding filter_empty_conv by blast
qed

lemma errors_of_kind_DOUBLE_SPENDING:
  "errors_of_kind DOUBLE_SPENDING (validateTransaction verify utxoPool transaction)
     = map double_spending_error (duplicate_inputs [] (inputs transaction))"
  by (simp add: errors_of_kind_def errors_validateTransaction filter_code_structural
      filter_code_double_spending filter_code_negative_amount filter_code_balance
      filter_code_input_errors)

lemma errors_of_kind_AMOUNT_MISMATCH:
  "errors_of_kind AMOUNT_MISMATCH (validateTransaction verify utxoPool transaction)
     = balance_errors utxoPool transaction"
  by (simp add: errors_of_kind_def errors_validateTransaction filter_code_structural
      filter_code_double_spending filter_code_negative_amount filter_code_balance
      filter_code_input_errors)

lemma errors_of_kind_NEGATIVE_AMOUNT:
  "errors_of_kind NEGATIVE_AMOUNT (validateTransaction verify utxoPool transaction)
     = map negative_amount_error (non_positive_outputs transaction)"
  by (simp add: errors_of_kind_def errors_validateTransaction filter_code_structural
      filter_code_double_spending filter_code_negative_amount filter_code_balance
      filter_code_input_errors)

lemma code_in_errors_iff:
  "(k \<in> code ` set (errors r)) = (errors_of_kind k r \<noteq> [])"
  by (auto simp: errors_of_kind_def filter_empty_conv)

lemma sublist_middle: "sublist ys (xs @ ys @ zs)"
  by (simp add: sublist_def) blast

lemma check_position_input_errors:
  "e \<in> set (concat (map (input_errors verify utxoPool transaction) xs))
     \<Longrightarrow> check_position (code e) = 3"
  using code_input_errors by fastforce

lemma check_position_structural:
  "sorted (map (\<lambda>e. check_position (code e)) (structural_errors transaction))
   \<and> (\<forall>e \<in> set (structural_errors transaction). check_position (code e) \<le> 1)"
  by (simp add: structural_errors_def)

lemma check_position_balance:
  "e \<in> set (balance_errors utxoPool transaction) \<Longrightarrow> check_position (code e) = 4"
  by (auto simp: balance_errors_def split: if_splits)

lemma sorted_constant: "(\<And>x. x \<in> set xs \<Longrightarrow> f x = (c::nat)) \<Longrightarrow> sorted (map f xs)"
  by (induction xs) auto

lemma sorted_check_positions:
  "sorted (map (\<lambda>e. check_position (code e)) (errors (validateTransaction verify utxoPool transaction)))"
proof -
  let ?f = "\<lambda>e. check_position (code e)"
  let ?S = "structural_errors transaction"
  let ?D = "map double_spending_error (duplicate_inputs [] (inputs transaction))"
  let ?I = "concat (map (input_errors verify utxoPool transaction) (inputs transaction))"
  let ?B = "balance_errors utxoPool transaction"
  let ?N = "map negative_amount_error (non_positive_outputs transaction)"
  have s: "sorted (map ?f ?S)" "\<And>e. e \<in> set ?S \<Longrightarrow> ?f e \<le> 1"
    using check_position_structural by blast+
  have d: "\<And>e. e \<in> set ?D \<Longrightarrow> ?f e = 2" by auto
  have i: "\<And>e. e \<in> set ?I \<Longrightarrow> ?f e = 3" by (rule check_position_input_errors)
  have b: "\<And>e. e \<in> set ?B \<Longrightarrow> ?f e = 4" by (rule check_position_balance)
  have n: "\<And>e. e \<in> set ?N \<Longrightarrow> ?f e = 5" by auto
  have sd: "sorted (map ?f ?D)" using d by (rule sorted_constant)
  have si: "sorted (map ?f ?I)" using i by (rule sorted_constant)
  have sb: "sorted (map ?f ?B)" using b by (rule sorted_constant)
  have sn: "sorted (map ?f ?N)" using n by (rule sorted_constant)
  have bn: "sorted (map ?f (?B @ ?N))"
    unfolding map_append sorted_append using sb sn b n by fastforce
  have ibn: "sorted (map ?f (?I @ ?B @ ?N))"
    unfolding map_append [of ?f ?I] sorted_append using si bn i b n by fastforce
  have dibn: "sorted (map ?f (?D @ ?I @ ?B @ ?N))"
    unfolding map_append [of ?f ?D] sorted_append using sd ibn d i b n by fastforce
  have "sorted (map ?f (?S @ ?D @ ?I @ ?B @ ?N))"
    unfolding map_append [of ?f ?S] sorted_append using s dibn d i b n by fastforce
  then show ?thesis by (simp only: errors_validateTransaction)
qed

lemma resolved_amounts_append:
  "resolved_amounts utxoPool (xs @ ys) = resolved_amounts utxoPool xs @ resolved_amounts utxoPool ys"
  by (induction xs) (auto split: option.splits)

lemma duplicate_inputs_append:
  "duplicate_inputs seen (xs @ ys)
     = duplicate_inputs seen xs @ duplicate_inputs (seen @ map input_ref xs) ys"
  by (induction xs arbitrary: seen) simp_all

lemma duplicate_inputs_subset: "set (duplicate_inputs seen xs) \<subseteq> set xs"
  by (induction xs arbitrary: seen) auto

lemma duplicate_inputs_distinct:
  "distinct (map input_ref xs) \<Longrightarrow> input_ref ` set xs \<inter> set seen = {}
     \<Longrightarrow> duplicate_inputs seen xs = []"
proof (induction xs arbitrary: seen)
  case Nil
  show ?case by simp
next
  case (Cons x xs)
  from Cons.prems have "distinct (map input_ref xs)"
    and "input_ref ` set xs \<inter> set (seen @ [input_ref x]) = {}"
    and "input_ref x \<notin> set seen" by auto
  with Cons.IH [of "seen @ [input_ref x]"] show ?case by simp
qed

text \<open>Of the inputs with one reference, all occurrences but the first are duplicates.\<close>

lemma duplicate_inputs_of_ref:
  "filter (\<lambda>i. input_ref i = r) (duplicate_inputs seen xs)
     = (if r \<in> set seen then filter (\<lambda>i. input_ref i = r) xs
        else tl (filter (\<lambda>i. input_ref i = r) xs))"
proof (induction xs arbitrary: seen)
  case Nil
  show ?case by simp
next
  case (Cons x xs)
  show ?case
  proof (cases "input_ref x = r")
    case True
    then show ?thesis by (simp add: Cons.IH)
  next
    case False
    then show ?thesis by (auto simp: Cons.IH)
  qed
qed

lemma filter_no_ref:
  "r \<notin> input_ref ` set xs \<Longrightarrow> filter (\<lambda>i. input_ref i = r) xs = []"
  by (auto simp: filter_empty_conv)

lemma filter_error_eq:
  "filter (\<lambda>e. e = x) es = filter (\<lambda>e. e = x) (filter (\<lambda>e. code e = code x) es)"
  by (induction es) auto

lemma filter_double_spending_error:
  "filter (\<lambda>e. e = double_spending_error b) (map double_spending_error xs)
     = map double_spending_error (filter (\<lambda>i. input_ref i = input_ref b) xs)"
  by (induction xs) (auto simp: double_spending_error_eq_iff)

lemma double_spending_loop_acc:
  "double_spending_loop xs [] errs = errs @ map double_spending_error (duplicate_inputs [] xs)"
  using double_spending_loop_eq [of xs "[]" errs] by simp

lemma subseq_duplicate_inputs: "subseq (duplicate_inputs seen xs) xs"
  by (induction xs arbitrary: seen) auto

lemma in_errors_double_spending:
  "(double_spending_error b \<in> set (errors (validateTransaction verify utxoPool transaction)))
     = (double_spending_error b
          \<in> set (errors_of_kind DOUBLE_SPENDING (validateTransaction verify utxoPool transaction)))"
  by (auto simp: errors_of_kind_def)

lemma in_input_errors_invalid_signature:
  assumes "invalid_signature_error input
     \<in> set (concat (map (input_errors verify utxoPool transaction) xs))"
  shows "utxoPool (input_ref input) \<noteq> None"
proof -
  from assms obtain j where "invalid_signature_error input \<in> set (input_errors verify utxoPool transaction j)"
    by auto
  then have "invalid_signature_error input = invalid_signature_error j \<and> utxoPool (input_ref j) \<noteq> None"
    by (cases "utxoPool (input_ref j)") (auto simp: input_errors_def split: if_splits dest: arg_cong [where f = code])
  then show ?thesis by (simp add: invalid_signature_error_eq_iff)
qed

lemma invalid_signature_error_in_errors:
  assumes "invalid_signature_error input \<in> set (errors (validateTransaction verify utxoPool transaction))"
  shows "utxoPool (input_ref input) \<noteq> None"
proof -
  let ?e = "invalid_signature_error input"
  have "?e \<notin> set (structural_errors transaction)"
    by (auto simp: structural_errors_def dest: arg_cong [where f = code])
  moreover have "?e \<notin> set (map double_spending_error (duplicate_inputs [] (inputs transaction)))"
    by (auto dest: arg_cong [where f = code])
  moreover have "?e \<notin> set (balance_errors utxoPool transaction)"
    by (auto simp: balance_errors_def dest: arg_cong [where f = code])
  moreover have "?e \<notin> set (map negative_amount_error (non_positive_outputs transaction))"
    by (auto dest: arg_cong [where f = code])
  ultimately have "?e \<in> set (concat (map (input_errors verify utxoPool transaction) (inputs transaction)))"
    using assms unfolding errors_validateTransaction set_append by blast
  then show ?thesis by (rule in_input_errors_invalid_signature)
qed

lemma filter_kept_structural:
  "filter (\<lambda>e. code e \<noteq> DOUBLE_SPENDING \<and> code e \<noteq> NEGATIVE_AMOUNT) (structural_errors transaction)
     = structural_errors transaction"
  by (simp add: structural_errors_def)

lemma filter_kept_input_errors:
  "filter (\<lambda>e. code e \<noteq> DOUBLE_SPENDING \<and> code e \<noteq> NEGATIVE_AMOUNT)
     (concat (map (input_errors verify utxoPool transaction) xs))
     = concat (map (input_errors verify utxoPool transaction) xs)"
  unfolding filter_id_conv using code_input_errors by fastforce

lemma filter_kept_balance:
  "filter (\<lambda>e. code e \<noteq> DOUBLE_SPENDING \<and> code e \<noteq> NEGATIVE_AMOUNT) (balance_errors utxoPool transaction)
     = balance_errors utxoPool transaction"
  by (simp add: balance_errors_def)

lemma filter_dropped_double_spending:
  "filter (\<lambda>e. code e \<noteq> DOUBLE_SPENDING \<and> code e \<noteq> NEGATIVE_AMOUNT) (map double_spending_error xs) = []"
  by (simp add: filter_empty_conv)

lemma filter_dropped_negative_amount:
  "filter (\<lambda>e. code e \<noteq> DOUBLE_SPENDING \<and> code e \<noteq> NEGATIVE_AMOUNT) (map negative_amount_error xs) = []"
  by (simp add: filter_empty_conv)

lemma validation_result_eq:
  "valid r = (errors r = []) \<Longrightarrow> valid r' = (errors r' = []) \<Longrightarrow> errors r = errors r'
     \<Longrightarrow> (r :: ValidationResult) = r'"
  by (cases r, cases r') simp

section \<open>The text of the signing payload\<close>














section \<open>Properties of the validator and of the signing payload\<close>

text \<open>
  C1. The flag \<open>valid\<close> of the result holds exactly when the error list is empty, and
  the error list of the result is the whole accumulation: the errors of the structural
  check, of the duplicate-reference loop, of the per-input loop, of the balance check and
  of the loop over non-positive outputs, in the order in which the method runs them.
\<close>

theorem validateTransaction_valid_iff_no_errors:
  "valid (validateTransaction verify utxoPool transaction)
     = (errors (validateTransaction verify utxoPool transaction) = [])
   \<and> errors (validateTransaction verify utxoPool transaction)
     = structural_errors transaction
       @ map double_spending_error (duplicate_inputs [] (inputs transaction))
       @ concat (map (input_errors verify utxoPool transaction) (inputs transaction))
       @ balance_errors utxoPool transaction
       @ map negative_amount_error (non_positive_outputs transaction)"
  using valid_validateTransaction errors_validateTransaction by blast

theorem validateTransaction_valid_iff_no_errors_witness:
  "valid (validateTransaction example_verify pool_A tx_ok)
   \<and> errors (validateTransaction example_verify pool_A tx_ok) = []
   \<and> \<not> valid (validateTransaction example_verify pool_A tx_missing)
   \<and> errors (validateTransaction example_verify pool_A tx_missing) = [utxo_not_found_error input_B1]"
proof -
  have a: "errors (validateTransaction example_verify pool_A tx_ok) = []" by code_simp
  have b: "errors (validateTransaction example_verify pool_A tx_missing) = [utxo_not_found_error input_B1]"
    by code_simp
  from a b validateTransaction_valid_iff_no_errors [of example_verify pool_A tx_ok]
    validateTransaction_valid_iff_no_errors [of example_verify pool_A tx_missing]
  show ?thesis by simp
qed

text \<open>
  C2. Against the pool that holds exactly the UTXO \<open>A\<close>, index 0, of amount 10, a
  transaction that lists this reference twice, with signatures the verifier accepts, and
  has two outputs that the method sums to 20 gets \<open>DOUBLE_SPENDING\<close> exactly once and no
  \<open>AMOUNT_MISMATCH\<close>: each occurrence adds the amount of the UTXO, so the input total
  is 20, the output total.
\<close>

theorem twice_listed_utxo_is_summed_twice:
  assumes p: "utxoPool = [(''A'', 0) \<mapsto> u]" "utxo_amount u = Finite 10" "utxo_owner u = K"
    and i: "inputs transaction = [i1, i2]"
      "input_ref i1 = (''A'', 0)" "input_ref i2 = (''A'', 0)" "owner i1 = K" "owner i2 = K"
    and v: "verify (createTransactionDataForSigning transaction) (signature i1) K"
      "verify (createTransactionDataForSigning transaction) (signature i2) K"
    and out: "outputs transaction = [o1, o2]"
      "number_add (number_add (Finite 0) (amount o1)) (amount o2) = Finite 20"
  shows "errors_of_kind DOUBLE_SPENDING (validateTransaction verify utxoPool transaction)
           = [double_spending_error i2]
     \<and> resolved_total utxoPool transaction = Finite 20
     \<and> output_total transaction = Finite 20
     \<and> AMOUNT_MISMATCH \<notin> code ` set (errors (validateTransaction verify utxoPool transaction))"
proof -
  let ?r = "validateTransaction verify utxoPool transaction"
  have 1: "errors_of_kind DOUBLE_SPENDING ?r = [double_spending_error i2]"
    by (simp add: errors_of_kind_DOUBLE_SPENDING i)
  have 2: "resolved_total utxoPool transaction = Finite 20"
    by (simp add: resolved_total_def accumulated_def i p round_double_exact)
  have 3: "output_total transaction = Finite 20"
    using out by (simp add: output_total_def accumulated_def)
  have 4: "AMOUNT_MISMATCH \<notin> code ` set (errors ?r)"
    unfolding code_in_errors_iff errors_of_kind_AMOUNT_MISMATCH
    by (simp add: balance_errors_def 2 3 number_neq_def)
  from 1 2 3 4 show ?thesis by blast
qed

theorem twice_listed_utxo_is_summed_twice_witness:
  "errors_of_kind DOUBLE_SPENDING (validateTransaction example_verify pool_A tx_twice)
     = [double_spending_error input_A0]
   \<and> resolved_total pool_A tx_twice = Finite 20
   \<and> output_total tx_twice = Finite 20
   \<and> AMOUNT_MISMATCH \<notin> code ` set (errors (validateTransaction example_verify pool_A tx_twice))"
proof -
  have p: "pool_A = [(''A'', 0) \<mapsto> utxo_A0]" "utxo_amount utxo_A0 = Finite 10" "utxo_owner utxo_A0 = ''K''"
    by (simp_all add: pool_A_def utxo_A0_def)
  have i: "inputs tx_twice = [input_A0, input_A0]" "input_ref input_A0 = (''A'', 0)" "owner input_A0 = ''K''"
    by (simp_all add: tx_twice_def input_A0_def input_ref_def)
  have v: "example_verify (createTransactionDataForSigning tx_twice) (signature input_A0) ''K''"
    by (simp add: example_verify_def input_A0_def)
  have out: "outputs tx_twice = [output_R 10, output_R 10]" "number_add (number_add (Finite 0) (amount (output_R 10))) (amount (output_R 10)) = Finite 20"
    by (simp_all add: tx_twice_def output_R_def round_double_exact)
  show ?thesis
    by (rule twice_listed_utxo_is_summed_twice
      [where verify = example_verify, OF p i(1) i(2) i(2) i(3) i(3) v v out])
qed

text \<open>
  The amount of the UTXO listed twice does not count once only: for \<open>tx_twice\<close> the
  input total is 20, there is no \<open>AMOUNT_MISMATCH\<close>, and the one error of the result is
  the \<open>DOUBLE_SPENDING\<close> error.
\<close>

theorem twice_listed_utxo_counterexample:
  "errors (validateTransaction example_verify pool_A tx_twice) = [double_spending_error input_A0]
   \<and> AMOUNT_MISMATCH \<notin> code ` set (errors (validateTransaction example_verify pool_A tx_twice))"
  by code_simp

text \<open>
  C3. The errors stand in the result in the order in which the method runs its checks:
  \<open>EMPTY_INPUTS\<close>, \<open>EMPTY_OUTPUTS\<close>, the \<open>DOUBLE_SPENDING\<close> errors, the errors of the
  per-input loop, \<open>AMOUNT_MISMATCH\<close>, and the \<open>NEGATIVE_AMOUNT\<close> errors last. The balance
  check runs before the loop over non-positive outputs, so an \<open>AMOUNT_MISMATCH\<close> entry
  stands before every \<open>NEGATIVE_AMOUNT\<close> entry.
\<close>

theorem errors_in_check_order:
  "sorted (map (\<lambda>e. check_position (code e)) (errors (validateTransaction verify utxoPool transaction)))
   \<and> (\<forall>i j. i < length (errors (validateTransaction verify utxoPool transaction))
          \<and> j < length (errors (validateTransaction verify utxoPool transaction))
          \<and> code (errors (validateTransaction verify utxoPool transaction) ! i) = AMOUNT_MISMATCH
          \<and> code (errors (validateTransaction verify utxoPool transaction) ! j) = NEGATIVE_AMOUNT
        \<longrightarrow> i < j)"
proof -
  let ?es = "errors (validateTransaction verify utxoPool transaction)"
  let ?ps = "map (\<lambda>e. check_position (code e)) ?es"
  have s: "sorted ?ps" by (rule sorted_check_positions)
  have "i < j" if h: "i < length ?es" "j < length ?es"
    "code (?es ! i) = AMOUNT_MISMATCH" "code (?es ! j) = NEGATIVE_AMOUNT" for i j
  proof (rule ccontr)
    assume "\<not> i < j"
    then have "j \<le> i" by simp
    with s h(1) have "?ps ! j \<le> ?ps ! i" by (simp add: sorted_iff_nth_mono)
    with h show False by simp
  qed
  with s show ?thesis by blast
qed

theorem errors_in_check_order_witness:
  "map code (errors (validateTransaction example_verify pool_A tx_negative))
     = [AMOUNT_MISMATCH, NEGATIVE_AMOUNT]
   \<and> sorted (map (\<lambda>e. check_position (code e)) (errors (validateTransaction example_verify pool_A tx_negative)))"
proof -
  have "map code (errors (validateTransaction example_verify pool_A tx_negative))
     = [AMOUNT_MISMATCH, NEGATIVE_AMOUNT]" by code_simp
  with errors_in_check_order [of example_verify pool_A tx_negative] show ?thesis by simp
qed

text \<open>
  With the input \<open>A\<close>, index 0, of amount 10 and the single output of amount -5, the
  \<open>NEGATIVE_AMOUNT\<close> entry stands after the \<open>AMOUNT_MISMATCH\<close> entry, not before it.
\<close>

theorem negative_amount_before_mismatch_counterexample:
  "map code (errors (validateTransaction example_verify pool_A tx_negative))
     = [AMOUNT_MISMATCH, NEGATIVE_AMOUNT]"
  by code_simp

text \<open>
  C4. An input whose reference is not in the pool gets a \<open>UTXO_NOT_FOUND\<close> error in the
  result and no \<open>INVALID_SIGNATURE\<close> error. The loop leaves \<open>totalInput\<close> as it is
  for this input: the total is the one of the inputs without it, and the balance check
  compares that total with the accumulated total of the outputs.
\<close>

theorem missing_utxo_not_found_and_not_counted:
  assumes i: "inputs transaction = xs @ input # ys"
    and a: "getUTXO utxoPool (txId (utxoId input)) (outputIndex (utxoId input)) = None"
  shows "utxo_not_found_error input \<in> set (errors (validateTransaction verify utxoPool transaction))
     \<and> invalid_signature_error input \<notin> set (errors (validateTransaction verify utxoPool transaction))
     \<and> fst (inputs_loop verify utxoPool transaction (xs @ input # ys) (Finite 0, errs))
         = fst (inputs_loop verify utxoPool transaction (xs @ ys) (Finite 0, errs))
     \<and> inputs_loop verify utxoPool transaction [input] (t0, errs)
         = (t0, errs @ [utxo_not_found_error input])
     \<and> (AMOUNT_MISMATCH \<in> code ` set (errors (validateTransaction verify utxoPool transaction)))
         = number_neq (accumulated (resolved_amounts utxoPool (xs @ ys))) (output_total transaction)"
proof -
  let ?r = "validateTransaction verify utxoPool transaction"
  from a have p: "utxoPool (input_ref input) = None" by (simp add: getUTXO_def input_ref_def)
  then have e: "input_errors verify utxoPool transaction input = [utxo_not_found_error input]"
    by (simp add: input_errors_def)
  have 1: "utxo_not_found_error input \<in> set (errors ?r)"
    by (simp add: errors_validateTransaction i e)
  have 2: "invalid_signature_error input \<notin> set (errors ?r)"
    using invalid_signature_error_in_errors [of input verify utxoPool transaction] p by blast
  have s: "resolved_amounts utxoPool (xs @ input # ys) = resolved_amounts utxoPool (xs @ ys)"
    using resolved_amounts_append [of utxoPool xs "input # ys"] resolved_amounts_append [of utxoPool xs ys] p
    by simp
  then have 3: "fst (inputs_loop verify utxoPool transaction (xs @ input # ys) (Finite 0, errs))
         = fst (inputs_loop verify utxoPool transaction (xs @ ys) (Finite 0, errs))"
    by (simp add: inputs_loop_eq)
  have 4: "inputs_loop verify utxoPool transaction [input] (t0, errs) = (t0, errs @ [utxo_not_found_error input])"
    using a by simp
  have 5: "(AMOUNT_MISMATCH \<in> code ` set (errors ?r))
         = number_neq (accumulated (resolved_amounts utxoPool (xs @ ys))) (output_total transaction)"
    unfolding code_in_errors_iff errors_of_kind_AMOUNT_MISMATCH
    using s by (simp add: balance_errors_def resolved_total_def i)
  from 1 2 3 4 5 show ?thesis by blast
qed

theorem missing_utxo_not_found_and_not_counted_witness:
  "inputs tx_missing = [input_A0] @ input_B1 # []
   \<and> getUTXO pool_A (txId (utxoId input_B1)) (outputIndex (utxoId input_B1)) = None
   \<and> errors (validateTransaction example_verify pool_A tx_missing) = [utxo_not_found_error input_B1]
   \<and> invalid_signature_error input_B1 \<notin> set (errors (validateTransaction example_verify pool_A tx_missing))
   \<and> fst (inputs_loop example_verify pool_A tx_missing [input_A0, input_B1] (Finite 0, [])) = Finite 10
   \<and> AMOUNT_MISMATCH \<notin> code ` set (errors (validateTransaction example_verify pool_A tx_missing))"
proof -
  have i: "inputs tx_missing = [input_A0] @ input_B1 # []" by (simp add: tx_missing_def)
  have a: "getUTXO pool_A (txId (utxoId input_B1)) (outputIndex (utxoId input_B1)) = None"
    by (simp add: getUTXO_def pool_A_def input_B1_def)
  have e: "errors (validateTransaction example_verify pool_A tx_missing) = [utxo_not_found_error input_B1]"
    by code_simp
  have l: "fst (inputs_loop example_verify pool_A tx_missing [input_A0] (Finite 0, [])) = Finite 10"
    by code_simp
  from missing_utxo_not_found_and_not_counted [OF i a, of example_verify "[]" "Finite 0"] i a e l
  show ?thesis by simp
qed

text \<open>
  C5. When the inputs are \<open>xs @ a # ys @ b # zs\<close>, where \<open>a\<close> and \<open>b\<close> carry the same
  reference and no other input does, the result has exactly one \<open>DOUBLE_SPENDING\<close> error
  for that reference. The loop has pushed none for it when it has gone through the first
  occurrence and the inputs up to the second one, and it pushes the error in the iteration
  of the second occurrence. When no other reference repeats either, that error is the only
  \<open>DOUBLE_SPENDING\<close> error of the result. In general the \<open>DOUBLE_SPENDING\<close> errors are those
  of the repeated inputs, in input order.
\<close>

theorem double_spending_for_second_occurrence:
  assumes i: "inputs transaction = xs @ a # ys @ b # zs"
    and r: "input_ref a = input_ref b"
    and n: "input_ref b \<notin> input_ref ` set (xs @ ys @ zs)"
  shows "filter (\<lambda>e. e = double_spending_error b)
           (errors (validateTransaction verify utxoPool transaction)) = [double_spending_error b]
     \<and> double_spending_error b \<notin> set (double_spending_loop (xs @ a # ys) [] [])
     \<and> double_spending_loop (xs @ a # ys @ [b]) [] []
         = double_spending_loop (xs @ a # ys) [] [] @ [double_spending_error b]
     \<and> (distinct (map input_ref (xs @ ys @ zs)) \<longrightarrow>
          errors_of_kind DOUBLE_SPENDING (validateTransaction verify utxoPool transaction)
            = [double_spending_error b])
     \<and> errors_of_kind DOUBLE_SPENDING (validateTransaction verify utxoPool transaction)
         = map double_spending_error (duplicate_inputs [] (inputs transaction))
     \<and> subseq (duplicate_inputs [] (inputs transaction)) (inputs transaction)"
proof -
  let ?r = "validateTransaction verify utxoPool transaction"
  let ?b = "input_ref b"
  from n have nx: "?b \<notin> input_ref ` set xs" and ny: "?b \<notin> input_ref ` set ys"
    and nz: "?b \<notin> input_ref ` set zs" by auto
  have f: "filter (\<lambda>i. input_ref i = ?b) (inputs transaction) = [a, b]"
    unfolding i using r by (simp add: filter_no_ref [OF nx] filter_no_ref [OF ny] filter_no_ref [OF nz])
  have "filter (\<lambda>e. e = double_spending_error b) (errors ?r)
      = filter (\<lambda>e. e = double_spending_error b) (errors_of_kind DOUBLE_SPENDING ?r)"
    using filter_error_eq [of "double_spending_error b" "errors ?r"]
    by (simp add: errors_of_kind_def)
  also have "\<dots> = map double_spending_error
      (filter (\<lambda>i. input_ref i = ?b) (duplicate_inputs [] (inputs transaction)))"
    by (simp only: errors_of_kind_DOUBLE_SPENDING filter_double_spending_error)
  also have "\<dots> = [double_spending_error b]"
    by (simp add: duplicate_inputs_of_ref f)
  finally have 1: "filter (\<lambda>e. e = double_spending_error b) (errors ?r) = [double_spending_error b]" .
  have g: "filter (\<lambda>i. input_ref i = ?b) (xs @ a # ys) = [a]"
    using r by (simp add: filter_no_ref [OF nx] filter_no_ref [OF ny])
  have 2: "double_spending_error b \<notin> set (double_spending_loop (xs @ a # ys) [] [])"
  proof
    assume "double_spending_error b \<in> set (double_spending_loop (xs @ a # ys) [] [])"
    then obtain j where j: "j \<in> set (duplicate_inputs [] (xs @ a # ys))"
      and e: "double_spending_error b = double_spending_error j"
      by (auto simp: double_spending_loop_acc)
    from e have "input_ref j = ?b" by (simp add: double_spending_error_eq_iff)
    with j have "j \<in> set (filter (\<lambda>i. input_ref i = ?b) (duplicate_inputs [] (xs @ a # ys)))"
      by simp
    then show False unfolding duplicate_inputs_of_ref g by simp
  qed
  have "duplicate_inputs [] ((xs @ a # ys) @ [b]) = duplicate_inputs [] (xs @ a # ys) @ [b]"
    unfolding duplicate_inputs_append [of "[]" "xs @ a # ys" "[b]"] using r by simp
  then have 3: "double_spending_loop (xs @ a # ys @ [b]) [] []
         = double_spending_loop (xs @ a # ys) [] [] @ [double_spending_error b]"
    by (simp add: double_spending_loop_acc)
  have 4: "errors_of_kind DOUBLE_SPENDING ?r = [double_spending_error b]"
    if d: "distinct (map input_ref (xs @ ys @ zs))"
  proof -
    from d nx ny r have "distinct (map input_ref (xs @ a # ys))" by auto
    then have p: "duplicate_inputs [] (xs @ a # ys) = []"
      by (intro duplicate_inputs_distinct) simp_all
    from d have dz: "distinct (map input_ref zs)" by simp
    from d nz r have "input_ref ` set zs \<inter> set (([] @ map input_ref (xs @ a # ys)) @ [?b]) = {}"
      by auto
    with dz have q: "duplicate_inputs (([] @ map input_ref (xs @ a # ys)) @ [?b]) zs = []"
      by (rule duplicate_inputs_distinct)
    have "duplicate_inputs [] ((xs @ a # ys) @ b # zs) = [b]"
      unfolding duplicate_inputs_append [of "[]" "xs @ a # ys" "b # zs"] p
      using r q by simp
    then show ?thesis by (simp add: errors_of_kind_DOUBLE_SPENDING i)
  qed
  have 5: "errors_of_kind DOUBLE_SPENDING ?r
         = map double_spending_error (duplicate_inputs [] (inputs transaction))"
    by (rule errors_of_kind_DOUBLE_SPENDING)
  have 6: "subseq (duplicate_inputs [] (inputs transaction)) (inputs transaction)"
    by (rule subseq_duplicate_inputs)
  from 1 2 3 4 5 6 show ?thesis by blast
qed

theorem double_spending_for_second_occurrence_witness:
  "inputs tx_twice = [] @ input_A0 # [] @ input_A0 # []
   \<and> errors_of_kind DOUBLE_SPENDING (validateTransaction example_verify pool_A tx_twice)
       = [double_spending_error input_A0]
   \<and> filter (\<lambda>e. e = double_spending_error input_A0)
        (errors (validateTransaction example_verify pool_A tx_twice)) = [double_spending_error input_A0]
   \<and> double_spending_loop [input_A0] [] [] = []
   \<and> double_spending_loop [input_A0, input_A0] [] [] = [double_spending_error input_A0]"
proof -
  have i: "inputs tx_twice = [] @ input_A0 # [] @ input_A0 # []" by (simp add: tx_twice_def)
  have n: "input_ref input_A0 \<notin> input_ref ` set ([] @ [] @ [])" by simp
  have l: "double_spending_loop [input_A0] [] [] = []" by simp
  from double_spending_for_second_occurrence [OF i refl n, of example_verify pool_A] i l
  show ?thesis by simp
qed

text \<open>
  C6. The result has an \<open>AMOUNT_MISMATCH\<close> error exactly when the two totals differ as the
  method accumulates and compares them: the amounts of the inputs found in the pool,
  added one by one in double precision starting from 0, against the output amounts added
  the same way, compared with \<^verbatim>\<open>!=\<close>. There is then one such error, and its message
  contains the text of both accumulated totals. When the amounts are integers and every
  partial sum has a magnitude below \<open>2 ^ 53\<close>, the accumulated totals are the sums, and
  the error is there exactly when the sums differ.
\<close>

theorem amount_mismatch_iff_accumulated_totals_differ:
  "(AMOUNT_MISMATCH \<in> code ` set (errors (validateTransaction verify utxoPool transaction)))
     = number_neq (resolved_total utxoPool transaction) (output_total transaction)
   \<and> errors_of_kind AMOUNT_MISMATCH (validateTransaction verify utxoPool transaction)
     = (if number_neq (resolved_total utxoPool transaction) (output_total transaction)
        then [amount_mismatch_error (resolved_total utxoPool transaction) (output_total transaction)]
        else [])
   \<and> sublist (number_to_string a) (message (amount_mismatch_error a b))
   \<and> sublist (number_to_string b) (message (amount_mismatch_error a b))
   \<and> (resolved_amounts utxoPool (inputs transaction) = map Finite xs \<and> safe_sums 0 xs
        \<and> map amount (outputs transaction) = map Finite ys \<and> safe_sums 0 ys
      \<longrightarrow> resolved_total utxoPool transaction = Finite (sum_list xs)
          \<and> output_total transaction = Finite (sum_list ys)
          \<and> (AMOUNT_MISMATCH \<in> code ` set (errors (validateTransaction verify utxoPool transaction)))
              = (sum_list xs \<noteq> sum_list ys))"
proof -
  let ?r = "validateTransaction verify utxoPool transaction"
  have m: "message (amount_mismatch_error a b)
      = ''Suma de entradas ('' @ number_to_string a
          @ ('') no coincide con suma de salidas ('' @ number_to_string b @ '')'')"
    by (simp add: amount_mismatch_error_def createValidationError_def)
  have m': "message (amount_mismatch_error a b)
      = (''Suma de entradas ('' @ number_to_string a @ '') no coincide con suma de salidas ('')
          @ number_to_string b @ '')''"
    by (simp add: amount_mismatch_error_def createValidationError_def)
  have 1: "sublist (number_to_string a) (message (amount_mismatch_error a b))"
    unfolding m by (rule sublist_middle)
  have 2: "sublist (number_to_string b) (message (amount_mismatch_error a b))"
    unfolding m' by (rule sublist_middle)
  have 3: "errors_of_kind AMOUNT_MISMATCH ?r
     = (if number_neq (resolved_total utxoPool transaction) (output_total transaction)
        then [amount_mismatch_error (resolved_total utxoPool transaction) (output_total transaction)]
        else [])"
    by (simp add: errors_of_kind_AMOUNT_MISMATCH balance_errors_def)
  have 4: "(AMOUNT_MISMATCH \<in> code ` set (errors ?r))
     = number_neq (resolved_total utxoPool transaction) (output_total transaction)"
    unfolding code_in_errors_iff 3 by simp
  have 5: "resolved_total utxoPool transaction = Finite (sum_list xs)
          \<and> output_total transaction = Finite (sum_list ys)
          \<and> (AMOUNT_MISMATCH \<in> code ` set (errors ?r)) = (sum_list xs \<noteq> sum_list ys)"
    if h: "resolved_amounts utxoPool (inputs transaction) = map Finite xs \<and> safe_sums 0 xs
        \<and> map amount (outputs transaction) = map Finite ys \<and> safe_sums 0 ys"
  proof -
    from h have a: "resolved_total utxoPool transaction = Finite (sum_list xs)"
      by (simp add: resolved_total_def accumulated_exact)
    from h have b: "output_total transaction = Finite (sum_list ys)"
      by (simp add: output_total_def accumulated_exact)
    from a b show ?thesis unfolding 4 by (simp add: number_neq_def)
  qed
  from 1 2 3 4 5 show ?thesis by blast
qed

theorem amount_mismatch_iff_accumulated_totals_differ_witness:
  "resolved_total pool_A tx_negative = Finite 10
   \<and> output_total tx_negative = Finite (- 5)
   \<and> AMOUNT_MISMATCH \<in> code ` set (errors (validateTransaction example_verify pool_A tx_negative))
   \<and> errors_of_kind AMOUNT_MISMATCH (validateTransaction example_verify pool_A tx_negative)
       = [amount_mismatch_error (Finite 10) (Finite (- 5))]
   \<and> message (amount_mismatch_error (Finite 10) (Finite (- 5)))
       = ''Suma de entradas (10) no coincide con suma de salidas (-5)''
   \<and> AMOUNT_MISMATCH \<notin> code ` set (errors (validateTransaction example_verify pool_A tx_ok))"
proof -
  have x: "resolved_amounts pool_A (inputs tx_negative) = map Finite [10]" "safe_sums 0 [10]"
    "resolved_amounts pool_A (inputs tx_ok) = map Finite [10]"
    by (simp_all add: tx_negative_def tx_ok_def input_A0_def input_ref_def pool_A_def utxo_A0_def)
  have y: "map amount (outputs tx_negative) = map Finite [- 5]" "safe_sums 0 [- 5]"
    "map amount (outputs tx_ok) = map Finite [10]"
    by (simp_all add: tx_negative_def tx_ok_def output_R_def)
  have m: "message (amount_mismatch_error (Finite 10) (Finite (- 5)))
       = ''Suma de entradas (10) no coincide con suma de salidas (-5)''" by code_simp
  from x y m
    amount_mismatch_iff_accumulated_totals_differ
      [of example_verify pool_A tx_negative "Finite 10" "Finite (- 5)" "[10]" "[- 5]"]
    amount_mismatch_iff_accumulated_totals_differ
      [of example_verify pool_A tx_ok "Finite 0" "Finite 0" "[10]" "[10]"]
  show ?thesis by (simp add: number_neq_def)
qed

text \<open>
  The error does not follow the sums themselves. Against \<open>pool_big\<close> the inputs of
  \<open>tx_big\<close> resolve to the amounts \<open>2 ^ 53\<close> and 1, of sum \<open>2 ^ 53 + 1\<close>, and the output
  amount is \<open>2 ^ 53\<close>; the method accumulates \<open>2 ^ 53\<close> on both sides and accepts the
  transaction with no error.
\<close>

theorem amount_mismatch_exact_sums_counterexample:
  "resolved_amounts pool_big (inputs tx_big) = map Finite [9007199254740992, 1]
   \<and> map amount (outputs tx_big) = map Finite [9007199254740992]
   \<and> sum_list [9007199254740992, 1] \<noteq> sum_list [9007199254740992 :: int]
   \<and> resolved_total pool_big tx_big = Finite 9007199254740992
   \<and> output_total tx_big = Finite 9007199254740992
   \<and> AMOUNT_MISMATCH \<notin> code ` set (errors (validateTransaction example_verify pool_big tx_big))
   \<and> valid (validateTransaction example_verify pool_big tx_big)"
  by code_simp

text \<open>
  C7. The \<open>NEGATIVE_AMOUNT\<close> errors of the result are those of the outputs whose amount
  is at most 0, one for each and in output order, so an output with a positive amount
  (or any amount that is not at most 0) produces none; the message contains the text of
  the amount and the recipient.
\<close>

theorem negative_amount_for_non_positive_outputs:
  "errors_of_kind NEGATIVE_AMOUNT (validateTransaction verify utxoPool transaction)
     = map negative_amount_error (filter (\<lambda>out. number_le_zero (amount out)) (outputs transaction))
   \<and> (\<forall>out \<in> set (outputs transaction). number_le_zero (amount out) \<longrightarrow>
        negative_amount_error out \<in> set (errors (validateTransaction verify utxoPool transaction)))
   \<and> ((\<forall>out \<in> set (outputs transaction). \<not> number_le_zero (amount out)) \<longrightarrow>
        NEGATIVE_AMOUNT \<notin> code ` set (errors (validateTransaction verify utxoPool transaction)))
   \<and> sublist (number_to_string (amount out)) (message (negative_amount_error out))
   \<and> sublist (recipient out) (message (negative_amount_error out))"
proof -
  let ?r = "validateTransaction verify utxoPool transaction"
  have 1: "errors_of_kind NEGATIVE_AMOUNT ?r
     = map negative_amount_error (filter (\<lambda>out. number_le_zero (amount out)) (outputs transaction))"
    by (simp add: errors_of_kind_NEGATIVE_AMOUNT non_positive_outputs_def)
  have 2: "\<forall>out \<in> set (outputs transaction). number_le_zero (amount out) \<longrightarrow> negative_amount_error out \<in> set (errors ?r)"
    by (simp add: errors_validateTransaction non_positive_outputs_def)
  have 3: "(\<forall>out \<in> set (outputs transaction). \<not> number_le_zero (amount out)) \<longrightarrow> NEGATIVE_AMOUNT \<notin> code ` set (errors ?r)"
    unfolding code_in_errors_iff 1 by (auto simp: filter_empty_conv)
  have m: "message (negative_amount_error out)
      = (''Output inv'' @ [CHR 0xE1] @ ''lido con monto '') @ number_to_string (amount out)
          @ ('' para recipient='' @ recipient out)"
    by (simp add: negative_amount_error_def createValidationError_def)
  have m': "message (negative_amount_error out)
      = (''Output inv'' @ [CHR 0xE1] @ ''lido con monto '' @ number_to_string (amount out)
          @ '' para recipient='') @ recipient out @ []"
    by (simp add: negative_amount_error_def createValidationError_def)
  have 4: "sublist (number_to_string (amount out)) (message (negative_amount_error out))"
    unfolding m by (rule sublist_middle)
  have 5: "sublist (recipient out) (message (negative_amount_error out))"
    unfolding m' by (rule sublist_middle)
  from 1 2 3 4 5 show ?thesis by blast
qed

theorem negative_amount_for_non_positive_outputs_witness:
  "errors_of_kind NEGATIVE_AMOUNT (validateTransaction example_verify pool_A tx_zero)
       = [negative_amount_error (output_R 0)]
   \<and> negative_amount_error (output_R 0) \<in> set (errors (validateTransaction example_verify pool_A tx_zero))
   \<and> message (negative_amount_error (output_R 0))
       = ''Output inv'' @ [CHR 0xE1] @ ''lido con monto 0 para recipient=R''
   \<and> NEGATIVE_AMOUNT \<notin> code ` set (errors (validateTransaction example_verify pool_A tx_ok))"
proof -
  have o: "outputs tx_zero = [output_R 10, output_R 0]" "outputs tx_ok = [output_R 10]"
    by (simp_all add: tx_zero_def tx_ok_def)
  have a: "amount (output_R 10) = Finite 10" "amount (output_R 0) = Finite 0" by (simp_all add: output_R_def)
  have m: "message (negative_amount_error (output_R 0))
       = ''Output inv'' @ [CHR 0xE1] @ ''lido con monto 0 para recipient=R''" by code_simp
  from o a m negative_amount_for_non_positive_outputs [of example_verify pool_A tx_zero "output_R 0"]
    negative_amount_for_non_positive_outputs [of example_verify pool_A tx_ok "output_R 0"]
  show ?thesis by simp
qed




text \<open>
  C9. Let the lookup of the pool and the verifier be calls that leave the world (the pool
  included) as they find it. Then a call of the method leaves the world as it was, and
  two calls on the same transaction, the second in the world the first call leaves, return
  the same result, with the same flag and the same errors in the same order: the result
  the method computes from what the lookup and the verifier return in that world.
\<close>

theorem validateTransaction_twice_same_result:
  assumes g: "\<forall>w t i. snd (getUTXO_call w t i) = w"
    and v: "\<forall>w m s k. snd (verify_call w m s k) = w"
    and c1: "validateTransaction_run verify_call getUTXO_call transaction w = (r1, w1)"
    and c2: "validateTransaction_run verify_call getUTXO_call transaction w1 = (r2, w2)"
  shows "r1 = r2 \<and> valid r1 = valid r2 \<and> errors r1 = errors r2
     \<and> w1 = w \<and> w2 = w
     \<and> r1 = validateTransaction (verify_in verify_call w) (pool_in getUTXO_call w) transaction"
proof -
  let ?R = "validateTransaction (verify_in verify_call w) (pool_in getUTXO_call w) transaction"
  have e: "validateTransaction_run verify_call getUTXO_call transaction w = (?R, w)"
    by (rule validateTransaction_run_read_only [OF g v])
  have b: "r1 = ?R" using arg_cong [OF c1, of fst] by (simp add: e)
  have a: "w1 = w" using arg_cong [OF c1, of snd] by (simp add: e)
  have d: "r2 = ?R" using arg_cong [OF c2, of fst] unfolding a by (simp add: e)
  have c: "w2 = w" using arg_cong [OF c2, of snd] unfolding a by (simp add: e)
  show ?thesis unfolding a b c d by simp
qed

theorem validateTransaction_twice_same_result_witness:
  "validateTransaction_run example_verify_call lookup_call tx_missing pool_A
     = (\<lparr>valid = False, errors = [utxo_not_found_error input_B1]\<rparr>, pool_A)
   \<and> validateTransaction_run example_verify_call lookup_call tx_missing
        (snd (validateTransaction_run example_verify_call lookup_call tx_missing pool_A))
     = (\<lparr>valid = False, errors = [utxo_not_found_error input_B1]\<rparr>, pool_A)"
proof -
  have g: "\<forall>w t i. snd (lookup_call w t i) = w" by (simp add: lookup_call_def)
  have v: "\<forall>w m s k. snd (example_verify_call w m s k) = w" by (simp add: example_verify_call_def)
  have p: "pool_in lookup_call pool_A = pool_A" "verify_in example_verify_call pool_A = example_verify"
    by (simp_all add: pool_in_def lookup_call_def verify_in_def example_verify_call_def)
  have a: "validateTransaction example_verify pool_A tx_missing
     = \<lparr>valid = False, errors = [utxo_not_found_error input_B1]\<rparr>" by code_simp
  obtain r1 w1 where c1: "validateTransaction_run example_verify_call lookup_call tx_missing pool_A = (r1, w1)"
    by (cases "validateTransaction_run example_verify_call lookup_call tx_missing pool_A")
  obtain r2 w2 where c2: "validateTransaction_run example_verify_call lookup_call tx_missing w1 = (r2, w2)"
    by (cases "validateTransaction_run example_verify_call lookup_call tx_missing w1")
  note t = validateTransaction_twice_same_result [OF g v c1 c2]
  from t have eq: "r1 = r2" by (rule conjunct1)
  from t have "r1 = validateTransaction (verify_in example_verify_call pool_A)
      (pool_in lookup_call pool_A) tx_missing" by blast
  then have r1: "r1 = \<lparr>valid = False, errors = [utxo_not_found_error input_B1]\<rparr>"
    by (simp only: p a)
  from t have w1: "w1 = pool_A" by blast
  have r2: "r2 = \<lparr>valid = False, errors = [utxo_not_found_error input_B1]\<rparr>"
    using r1 by (simp only: eq)
  from t have w2: "w2 = pool_A" by blast
  have 1: "validateTransaction_run example_verify_call lookup_call tx_missing pool_A
     = (\<lparr>valid = False, errors = [utxo_not_found_error input_B1]\<rparr>, pool_A)"
    using c1 by (simp only: r1 w1)
  have 2: "validateTransaction_run example_verify_call lookup_call tx_missing pool_A
     = (\<lparr>valid = False, errors = [utxo_not_found_error input_B1]\<rparr>, pool_A)"
    using c2 by (simp only: r2 w1 w2)
  show ?thesis unfolding 1 snd_conv by (simp only: 1 simp_thms)
qed

text \<open>
  C10. The variant validator returns the error list of the validator without its
  \<open>DOUBLE_SPENDING\<close> and \<open>NEGATIVE_AMOUNT\<close> entries, in the same order and with the same
  messages. The two results are equal when no input reference repeats and no output
  amount is at most 0, and a transaction the validator accepts is accepted by the variant.
\<close>

theorem variant_omits_two_checks:
  "errors (validateTransaction_variant verify utxoPool transaction)
     = filter (\<lambda>e. code e \<noteq> DOUBLE_SPENDING \<and> code e \<noteq> NEGATIVE_AMOUNT)
         (errors (validateTransaction verify utxoPool transaction))
   \<and> (distinct (map input_ref (inputs transaction)) \<and> (\<forall>out \<in> set (outputs transaction). \<not> number_le_zero (amount out))
        \<longrightarrow> validateTransaction_variant verify utxoPool transaction
              = validateTransaction verify utxoPool transaction)
   \<and> (valid (validateTransaction verify utxoPool transaction)
        \<longrightarrow> valid (validateTransaction_variant verify utxoPool transaction))"
proof -
  let ?v = "validateTransaction_variant verify utxoPool transaction"
  let ?m = "validateTransaction verify utxoPool transaction"
  have 1: "errors ?v = filter (\<lambda>e. code e \<noteq> DOUBLE_SPENDING \<and> code e \<noteq> NEGATIVE_AMOUNT) (errors ?m)"
    unfolding errors_validateTransaction errors_validateTransaction_variant filter_append
      filter_kept_structural filter_kept_input_errors filter_kept_balance
      filter_dropped_double_spending filter_dropped_negative_amount
    by simp
  have 2: "?v = ?m"
    if d: "distinct (map input_ref (inputs transaction))"
      and o: "\<forall>out \<in> set (outputs transaction). \<not> number_le_zero (amount out)"
  proof -
    from d have "duplicate_inputs [] (inputs transaction) = []"
      by (intro duplicate_inputs_distinct) simp_all
    moreover from o have "non_positive_outputs transaction = []"
      by (auto simp: non_positive_outputs_def filter_empty_conv)
    ultimately have "errors ?v = errors ?m"
      by (simp add: errors_validateTransaction errors_validateTransaction_variant)
    then show ?thesis
      by (intro validation_result_eq valid_validateTransaction valid_validateTransaction_variant)
  qed
  have 3: "valid ?v" if "valid ?m"
  proof -
    from that have "errors ?m = []" by (simp add: valid_validateTransaction)
    with 1 have "errors ?v = []" by simp
    then show ?thesis by (simp add: valid_validateTransaction_variant)
  qed
  from 1 2 3 show ?thesis by blast
qed

theorem variant_omits_two_checks_witness:
  "validateTransaction_variant example_verify pool_A tx_ok = validateTransaction example_verify pool_A tx_ok
   \<and> valid (validateTransaction_variant example_verify pool_A tx_ok)
   \<and> errors (validateTransaction example_verify pool_A tx_zero) = [negative_amount_error (output_R 0)]
   \<and> errors (validateTransaction_variant example_verify pool_A tx_zero) = []"
proof -
  have d: "distinct (map input_ref (inputs tx_ok))" by (simp add: tx_ok_def)
  have o: "\<forall>out \<in> set (outputs tx_ok). \<not> number_le_zero (amount out)" by (simp add: tx_ok_def output_R_def)
  have v: "valid (validateTransaction example_verify pool_A tx_ok)" by code_simp
  have z: "errors (validateTransaction example_verify pool_A tx_zero) = [negative_amount_error (output_R 0)]"
    by code_simp
  from d o v z variant_omits_two_checks [of example_verify pool_A tx_ok]
    variant_omits_two_checks [of example_verify pool_A tx_zero]
  show ?thesis by simp
qed

text \<open>
  The two validators differ on \<open>tx_twice\<close>: the variant accepts it with no error, the
  validator rejects it with a \<open>DOUBLE_SPENDING\<close> error.
\<close>

theorem variant_differs_counterexample:
  "valid (validateTransaction_variant example_verify pool_A tx_twice)
   \<and> \<not> valid (validateTransaction example_verify pool_A tx_twice)
   \<and> map code (errors (validateTransaction_variant example_verify pool_A tx_twice)) = []
   \<and> map code (errors (validateTransaction example_verify pool_A tx_twice)) = [DOUBLE_SPENDING]"
  by code_simp

end
